theory Spec2Isabelle
  imports Complex_Main
begin

section \<open>SimpleShootingStar: the per-frame simulation of main.go\<close>

text \<open>
  The development embeds \<^verbatim>\<open>NewGame\<close>, \<^verbatim>\<open>createExplosion\<close> and \<^verbatim>\<open>Update\<close> of
  \<^verbatim>\<open>main.go\<close> (the version with the boss enemy and the stage file).

  Conventions of the embedding:
  \<^item> a Go \<^verbatim>\<open>float64\<close> is a \<^typ>\<open>real\<close>: rounding is idealised. The one place where the
    source can leave the finite numbers and keep the result (the aimed shot, a division by the
    distance to the player) is a branch of the model that returns a fault;
  \<^item> a Go \<^verbatim>\<open>int\<close> is an \<^typ>\<open>int\<close>: the counters of the game (timers, score, hit points,
    cooldowns) stay far from the 64-bit range. The two cursors that only ever index a slice
    (\<^verbatim>\<open>currentSpawn\<close>, \<^verbatim>\<open>currentStage\<close>: set to 0, incremented by one) are \<^typ>\<open>nat\<close>;
  \<^item> the enumerations of the source are untyped integer constants; they stay integers,
    since the stage file can hold any integer as an enemy or bullet type;
  \<^item> \<^verbatim>\<open>math/rand\<close> is an explicit source of draws that every function consuming
    randomness takes and returns;
  \<^item> the keys polled through \<^verbatim>\<open>ebiten.IsKeyPressed\<close> and the outcome of
    \<^verbatim>\<open>audio.Initialize\<close> are inputs of the frame; drawing and sound playback do not touch
    the game state and are left out;
  \<^item> the global \<^verbatim>\<open>stages\<close>, read from the stage file at start, is a parameter.
\<close>

subsection \<open>Constants\<close>

definition screenWidth :: real where "screenWidth = 640"
definition screenHeight :: real where "screenHeight = 480"

definition GameStateTitle :: int where "GameStateTitle = 0"
definition GameStatePlaying :: int where "GameStatePlaying = 1"
definition GameStateStageClear :: int where "GameStateStageClear = 2"
definition GameStatePlayerExplosion :: int where "GameStatePlayerExplosion = 3"
definition GameStateGameOver :: int where "GameStateGameOver = 4"

definition EnemyTypeStraight :: int where "EnemyTypeStraight = 0"
definition EnemyTypeSine :: int where "EnemyTypeSine = 1"
definition EnemyTypeSpecial :: int where "EnemyTypeSpecial = 2"
definition EnemyTypeBoss :: int where "EnemyTypeBoss = 3"

subsection \<open>Data model\<close>

record RGBA =
  col_r :: nat
  col_g :: nat
  col_b :: nat
  col_a :: nat

record Bullet =
  b_x :: real
  b_y :: real
  b_vx :: real
  b_vy :: real

record Star =
  s_x :: real
  s_y :: real
  s_speed :: real
  s_length :: real
  s_color :: RGBA

record EnemyBullet =
  eb_x :: real
  eb_y :: real
  eb_vx :: real
  eb_vy :: real

record Enemy =
  e_x :: real
  e_y :: real
  speed :: real
  enemyType :: int
  e_time :: real
  phase :: int
  hp :: int
  shootsBullet :: bool
  bulletType :: int
  bulletCooldown :: int
  turnDirection :: int
  bossState :: int
  bossTimer :: int
  moveDirection :: int

record Wave =
  EnemyType :: int
  WaveX :: int
  Delay :: int
  ShootsBullet :: bool
  BulletType :: int
  Speed :: real
  TurnDirection :: int

record Particle =
  p_x :: real
  p_y :: real
  p_vx :: real
  p_vy :: real
  p_size :: real
  alpha :: real
  lifetime :: int
  ptype :: int

record Stage =
  Name :: string
  Waves :: "Wave list"

record Game =
  playerX :: real
  playerY :: real
  bullets :: "Bullet list"
  shootCooldown :: int
  stars :: "Star list"
  enemies :: "Enemy list"
  waves :: "Wave list"
  waveTimer :: int
  currentSpawn :: nat
  score :: int
  gameState :: int
  highScore :: int
  particles :: "Particle list"
  currentStage :: nat
  stageClearTimer :: int
  stageClearKeyReleased :: bool
  playerExplosionTimer :: int
  enemyBullets :: "EnemyBullet list"

text \<open>What one frame reads from outside the game state.\<close>

record Input =
  KeySpace :: bool
  KeyLeft :: bool
  KeyRight :: bool
  KeyUp :: bool
  KeyDown :: bool
  KeyR :: bool
  audioInitOk :: bool

text \<open>
  The ways a frame can leave the model: a float division by zero whose result is kept
  (\<^verbatim>\<open>dx / dist\<close> with \<^verbatim>\<open>dist = 0\<close> is NaN in Go and is stored in a bullet and a particle),
  \<^verbatim>\<open>log.Fatal\<close> after a failed \<^verbatim>\<open>audio.Initialize\<close>, and the panic of \<^verbatim>\<open>stages[0]\<close> on an
  empty stage list.
\<close>

datatype fault = DivisionByZero | AudioInitFailed | IndexOutOfRange

subsection \<open>Randomness\<close>

text \<open>
  The generator is the infinite sequence of its future raw draws; a call consumes the
  first one. \<^verbatim>\<open>rand.Intn(n)\<close> is only called with the constants 5, 20 and 60.
\<close>

type_synonym rng = "nat \<Rightarrow> nat"

definition rnext :: "rng \<Rightarrow> rng" where
  "rnext r = (\<lambda>i. r (Suc i))"

definition Intn :: "nat \<Rightarrow> rng \<Rightarrow> int \<times> rng" where
  "Intn n r = (int (r 0 mod n), rnext r)"

definition Float64 :: "rng \<Rightarrow> real \<times> rng" where
  "Float64 r = (real (r 0 mod 2 ^ 53) / 2 ^ 53, rnext r)"

subsection \<open>Particles\<close>

text \<open>The body of the particle loop of \<^verbatim>\<open>Update\<close>, before the survival test.\<close>

definition stepParticle :: "Particle \<Rightarrow> Particle" where
  "stepParticle p =
     (let p1 = (if ptype p \<noteq> 1
                then p\<lparr>p_x := p_x p + p_vx p, p_y := p_y p + p_vy p, p_vy := p_vy p + 0.1\<rparr>
                else p)
      in p1\<lparr>alpha := alpha p1 - 1 / real_of_int (lifetime p1),
             lifetime := lifetime p1 - 1\<rparr>)"

definition particleAlive :: "Particle \<Rightarrow> bool" where
  "particleAlive p \<longleftrightarrow> lifetime p > 0 \<and> alpha p > 0"

text \<open>
  The loop compacts the slice in place, which keeps exactly the surviving particles in
  order. A particle with \<^verbatim>\<open>lifetime = 0\<close> divides by zero in the source; its lifetime becomes
  \<open>-1\<close> and it is dropped whatever its alpha, so the value of the quotient is never kept.
\<close>

fun updateParticles :: "Particle list \<Rightarrow> Particle list" where
  "updateParticles [] = []"
| "updateParticles (p # ps) =
     (let p' = stepParticle p
      in if particleAlive p' then p' # updateParticles ps else updateParticles ps)"

text \<open>\<^verbatim>\<open>createExplosion\<close>: twenty particles, four draws each; the colour is not used.\<close>

definition newExplosionParticle :: "real \<Rightarrow> real \<Rightarrow> rng \<Rightarrow> Particle \<times> rng" where
  "newExplosionParticle x y r =
     (let (a, r1) = Float64 r;
          angle = a * pi * 2;
          (s, r2) = Float64 r1;
          spd = 2 + s * 3;
          (z, r3) = Float64 r2;
          (l, r4) = Intn 20 r3
      in (\<lparr>p_x = x, p_y = y, p_vx = cos angle * spd, p_vy = sin angle * spd,
           p_size = 4 + z * 4, alpha = 1.0, lifetime = 30 + l, ptype = 0\<rparr>, r4))"

fun explosionLoop :: "nat \<Rightarrow> real \<Rightarrow> real \<Rightarrow> Particle list \<Rightarrow> rng \<Rightarrow> Particle list \<times> rng" where
  "explosionLoop 0 x y ps r = (ps, r)"
| "explosionLoop (Suc n) x y ps r =
     (let (p, r') = newExplosionParticle x y r in explosionLoop n x y (ps @ [p]) r')"

definition createExplosion :: "real \<Rightarrow> real \<Rightarrow> RGBA \<Rightarrow> Game \<Rightarrow> rng \<Rightarrow> Game \<times> rng" where
  "createExplosion x y c g r =
     (let (ps, r') = explosionLoop 20 x y (particles g) r in (g\<lparr>particles := ps\<rparr>, r'))"

subsection \<open>A new session\<close>

definition starColors :: "RGBA list" where
  "starColors =
     [\<lparr>col_r = 180, col_g = 180, col_b = 255, col_a = 100\<rparr>,
      \<lparr>col_r = 140, col_g = 180, col_b = 255, col_a = 100\<rparr>,
      \<lparr>col_r = 100, col_g = 140, col_b = 255, col_a = 100\<rparr>,
      \<lparr>col_r = 200, col_g = 200, col_b = 255, col_a = 80\<rparr>,
      \<lparr>col_r = 80, col_g = 120, col_b = 255, col_a = 80\<rparr>]"

definition newStar :: "rng \<Rightarrow> Star \<times> rng" where
  "newStar r =
     (let (c, r1) = Intn (length starColors) r;
          (fx, r2) = Float64 r1;
          (fy, r3) = Float64 r2;
          (fs, r4) = Float64 r3;
          (fl, r5) = Float64 r4
      in (\<lparr>s_x = fx * screenWidth, s_y = fy * screenHeight, s_speed = 2 + fs * 3,
           s_length = 8 + fl * 8, s_color = starColors ! nat c\<rparr>, r5))"

fun newStars :: "nat \<Rightarrow> rng \<Rightarrow> Star list \<times> rng" where
  "newStars 0 r = ([], r)"
| "newStars (Suc n) r =
     (let (s, r1) = newStar r; (ss, r2) = newStars n r1 in (s # ss, r2))"

text \<open>
  \<^verbatim>\<open>NewGame\<close>: the stars are drawn first, then the sound system is initialised
  (\<^verbatim>\<open>log.Fatal\<close> on failure), then the struct is built, reading \<^verbatim>\<open>stages[0]\<close>.
\<close>

definition NewGame :: "bool \<Rightarrow> Stage list \<Rightarrow> rng \<Rightarrow> fault + (Game \<times> rng)" where
  "NewGame audioOk stages r =
     (let (st, r') = newStars 60 r
      in if \<not> audioOk then Inl AudioInitFailed
         else (case stages of
                 [] \<Rightarrow> Inl IndexOutOfRange
               | s0 # _ \<Rightarrow>
                   Inr (\<lparr>playerX = screenWidth / 2,
                         playerY = screenHeight / 2 * 1.7,
                         bullets = [],
                         shootCooldown = 0,
                         stars = st,
                         enemies = [],
                         waves = Waves s0,
                         waveTimer = 0,
                         currentSpawn = 0,
                         score = 0,
                         gameState = GameStateTitle,
                         highScore = 0,
                         particles = [],
                         currentStage = 0,
                         stageClearTimer = 0,
                         stageClearKeyReleased = False,
                         playerExplosionTimer = 0,
                         enemyBullets = []\<rparr>, r')))"

subsection \<open>Background stars\<close>

definition stepStar :: "Star \<Rightarrow> rng \<Rightarrow> Star \<times> rng" where
  "stepStar s r =
     (let s1 = s\<lparr>s_y := s_y s + s_speed s\<rparr>
      in if s_y s1 > screenHeight
         then (let (fx, r1) = Float64 r;
                   (fs, r2) = Float64 r1;
                   (fl, r3) = Float64 r2
               in (s1\<lparr>s_x := fx * screenWidth, s_y := - s_length s1,
                      s_speed := 2 + fs * 3, s_length := 8 + fl * 8\<rparr>, r3))
         else (s1, r))"

fun updateStars :: "Star list \<Rightarrow> rng \<Rightarrow> Star list \<times> rng" where
  "updateStars [] r = ([], r)"
| "updateStars (s # ss) r =
     (let (s', r1) = stepStar s r; (ss', r2) = updateStars ss r1 in (s' # ss', r2))"

subsection \<open>Playing: the player and the wave scheduler\<close>

definition movePlayer :: "Input \<Rightarrow> Game \<Rightarrow> Game" where
  "movePlayer inp g =
     (let moveSpeed = 8.0;
          g1 = (if KeyLeft inp
                then (let x = playerX g - moveSpeed in g\<lparr>playerX := (if x < 20 then 20 else x)\<rparr>)
                else g);
          g2 = (if KeyRight inp
                then (let x = playerX g1 + moveSpeed
                      in g1\<lparr>playerX := (if x > screenWidth - 40 then screenWidth - 40 else x)\<rparr>)
                else g1);
          g3 = (if KeyUp inp
                then (let y = playerY g2 - moveSpeed in g2\<lparr>playerY := (if y < 40 then 40 else y)\<rparr>)
                else g2);
          g4 = (if KeyDown inp
                then (let y = playerY g3 + moveSpeed
                      in g3\<lparr>playerY := (if y > screenHeight - 20 then screenHeight - 20 else y)\<rparr>)
                else g3)
      in g4)"

text \<open>
  The loop \<^verbatim>\<open>for i := 0; i <= g.currentSpawn; i++ { totalDelay += g.waves[i].Delay }\<close>.
  It runs under the guard \<^verbatim>\<open>currentSpawn < len(waves)\<close>, so every read is in range.
\<close>

fun delayLoop :: "Wave list \<Rightarrow> nat \<Rightarrow> nat \<Rightarrow> int \<Rightarrow> int" where
  "delayLoop ws 0 i acc = acc"
| "delayLoop ws (Suc k) i acc = delayLoop ws k (Suc i) (acc + Delay (ws ! i))"

definition totalDelay :: "Wave list \<Rightarrow> nat \<Rightarrow> int" where
  "totalDelay ws cur = delayLoop ws (Suc cur) 0 0"

definition hpOfType :: "int \<Rightarrow> int" where
  "hpOfType t =
     (if t = EnemyTypeStraight then 2
      else if t = EnemyTypeSine then 3
      else if t = EnemyTypeSpecial then 4
      else if t = EnemyTypeBoss then 50
      else 1)"

definition makeEnemy :: "Wave \<Rightarrow> int \<Rightarrow> Enemy" where
  "makeEnemy wave cd =
     \<lparr>e_x = real_of_int (WaveX wave),
      e_y = -20,
      speed = (if Speed wave = 0 then 2.0 else Speed wave),
      enemyType = EnemyType wave,
      e_time = 0,
      phase = 0,
      hp = hpOfType (EnemyType wave),
      shootsBullet = ShootsBullet wave,
      bulletType = BulletType wave,
      bulletCooldown = 60 + cd,
      turnDirection = (if TurnDirection wave = 0 then 1 else TurnDirection wave),
      bossState = 0,
      bossTimer = 0,
      moveDirection = 1\<rparr>"

definition spawnEnemies :: "Game \<Rightarrow> rng \<Rightarrow> Game \<times> rng" where
  "spawnEnemies g r =
     (let (g1, r1) =
            (if currentSpawn g < length (waves g)
             then (if waveTimer g \<ge> totalDelay (waves g) (currentSpawn g)
                   then (let wave = waves g ! currentSpawn g;
                             (cd, r') = Intn 60 r
                         in (g\<lparr>enemies := enemies g @ [makeEnemy wave cd],
                                currentSpawn := currentSpawn g + 1\<rparr>, r'))
                   else (g, r))
             else (g, r))
      in (g1\<lparr>waveTimer := waveTimer g1 + 1\<rparr>, r1))"

subsection \<open>Playing: enemy movement and the boss\<close>

text \<open>Go's \<^verbatim>\<open>%\<close> truncates towards zero: the remainder has the sign of the dividend.\<close>

definition goRem :: "int \<Rightarrow> int \<Rightarrow> int" where
  "goRem a b = sgn a * (\<bar>a\<bar> mod \<bar>b\<bar>)"

text \<open>The five bullets of the boss's spread, \<^verbatim>\<open>for j := -2; j <= 2; j++\<close>.\<close>

definition bossSpreadBullet :: "Enemy \<Rightarrow> int \<Rightarrow> EnemyBullet" where
  "bossSpreadBullet e j =
     (let angle = real_of_int j * 0.3; spd = 3.0
      in \<lparr>eb_x = e_x e + 20, eb_y = e_y e + 30,
          eb_vx = sin angle * spd, eb_vy = cos angle * spd\<rparr>)"

definition bossSpread :: "Enemy \<Rightarrow> EnemyBullet list" where
  "bossSpread e = map (bossSpreadBullet e) [-2, -1, 0, 1, 2]"

definition bossFlash :: "Enemy \<Rightarrow> Particle" where
  "bossFlash e =
     \<lparr>p_x = e_x e + 20, p_y = e_y e + 30, p_vx = 0, p_vy = 4.0,
      p_size = 100, alpha = 1.0, lifetime = 8, ptype = 1\<rparr>"

text \<open>
  The boss case of the movement switch, after \<^verbatim>\<open>e.bossTimer++\<close>. It returns the enemy
  with the bullets and particles it appends to the session.
\<close>

definition moveBoss :: "Enemy \<Rightarrow> Enemy \<times> EnemyBullet list \<times> Particle list" where
  "moveBoss e0 =
     (let e = e0\<lparr>bossTimer := bossTimer e0 + 1\<rparr>
      in if bossState e = 0 then
           (if e_y e < 80 then (e\<lparr>e_y := e_y e + speed e\<rparr>, [], [])
            else
              (let e1 = e\<lparr>e_x := e_x e + speed e * real_of_int (moveDirection e)\<rparr>;
                   e2 = (if e_x e1 \<le> 50 then e1\<lparr>moveDirection := 1\<rparr>
                         else if e_x e1 \<ge> screenWidth - 90 then e1\<lparr>moveDirection := -1\<rparr>
                         else e1);
                   e3 = (if bossTimer e2 > 120 then e2\<lparr>bossState := 1, bossTimer := 0\<rparr> else e2)
               in (e3, [], [])))
         else if bossState e = 1 then
           ((if bossTimer e > 60 then e\<lparr>bossState := 2, bossTimer := 0\<rparr> else e), [], [])
         else if bossState e = 2 then
           (let (bs, ps) = (if goRem (bossTimer e) 8 = 0 \<and> bossTimer e < 80
                            then (bossSpread e, [bossFlash e]) else ([], []));
                e1 = (if bossTimer e > 80 then e\<lparr>bossState := 3, bossTimer := 0\<rparr> else e)
            in (e1, bs, ps))
         else if bossState e = 3 then
           ((if bossTimer e > 90 then e\<lparr>bossState := 0, bossTimer := 0\<rparr> else e), [], [])
         else (e, [], []))"

text \<open>The three phases of the Special enemy, as the Playing loop has them.\<close>

definition moveSpecial :: "Enemy \<Rightarrow> Enemy" where
  "moveSpecial e =
     (if phase e = 0 then
        (let e1 = e\<lparr>e_y := e_y e + speed e\<rparr>
         in if e_y e1 > screenHeight / 2 then e1\<lparr>phase := 1\<rparr> else e1)
      else if phase e = 1 then
        (let e1 = e\<lparr>e_x := e_x e + speed e * real_of_int (turnDirection e)\<rparr>
         in if (turnDirection e1 = 1 \<and> e_x e1 > screenWidth - 40)
               \<or> (turnDirection e1 = -1 \<and> e_x e1 < 20)
            then e1\<lparr>phase := 2\<rparr> else e1)
      else if phase e = 2 then e\<lparr>e_y := e_y e + speed e\<rparr>
      else e)"

definition moveEnemy :: "Enemy \<Rightarrow> Enemy \<times> EnemyBullet list \<times> Particle list" where
  "moveEnemy e0 =
     (let e = e0\<lparr>e_time := e_time e0 + 0.05\<rparr>
      in if enemyType e = EnemyTypeStraight then (e\<lparr>e_y := e_y e + speed e\<rparr>, [], [])
         else if enemyType e = EnemyTypeSine then
           (e\<lparr>e_y := e_y e + speed e, e_x := e_x e + sin (e_time e) * 3\<rparr>, [], [])
         else if enemyType e = EnemyTypeSpecial then (moveSpecial e, [], [])
         else if enemyType e = EnemyTypeBoss then moveBoss e
         else (e, [], []))"

subsection \<open>Playing: enemy fire\<close>

text \<open>
  The velocity of the aimed shot (bullet type 0). The source divides by
  \<^verbatim>\<open>math.Hypot(dx, dy)\<close> without looking at it; a zero distance is the fault.
\<close>

definition aimedVelocity :: "real \<Rightarrow> real \<Rightarrow> real \<Rightarrow> real \<Rightarrow> fault + (real \<times> real)" where
  "aimedVelocity px py ex ey =
     (let dx = px - ex;
          dy = py - ey;
          dist = sqrt (dx * dx + dy * dy);
          spd = 4.0
      in if dist = 0 then Inl DivisionByZero
         else Inr (dx / dist * spd, dy / dist * spd))"

definition shot :: "Enemy \<Rightarrow> real \<Rightarrow> real \<Rightarrow> EnemyBullet list \<times> Particle list" where
  "shot e vx vy =
     ([\<lparr>eb_x = e_x e + 10, eb_y = e_y e + 20, eb_vx = vx, eb_vy = vy\<rparr>],
      [\<lparr>p_x = e_x e + 10, p_y = e_y e + 20, p_vx = vx, p_vy = vy,
        p_size = 80, alpha = 1.0, lifetime = 5, ptype = 1\<rparr>])"

definition fireEnemy ::
  "real \<Rightarrow> real \<Rightarrow> Enemy \<Rightarrow> rng \<Rightarrow> fault + (Enemy \<times> EnemyBullet list \<times> Particle list \<times> rng)" where
  "fireEnemy px py e0 r =
     (if shootsBullet e0 then
        (let e = e0\<lparr>bulletCooldown := bulletCooldown e0 - 1\<rparr>
         in if bulletCooldown e \<le> 0 then
              (case (if bulletType e = 0 then
                       (case aimedVelocity px py (e_x e) (e_y e) of
                          Inl f \<Rightarrow> Inl f
                        | Inr (vx, vy) \<Rightarrow> Inr (shot e vx vy))
                     else if bulletType e = 1 then Inr (shot e 0 4.0)
                     else if bulletType e = 2 then Inr (shot e 2.0 4.0)
                     else if bulletType e = 3 then Inr (shot e (-2.0) 4.0)
                     else Inr ([], [])) of
                 Inl f \<Rightarrow> Inl f
               | Inr (bs, ps) \<Rightarrow>
                   (let (cd, r') = Intn 60 r
                    in Inr (e\<lparr>bulletCooldown := 60 + cd\<rparr>, bs, ps, r')))
            else Inr (e, [], [], r))
      else Inr (e0, [], [], r))"

text \<open>
  The loop over the enemies: each one moves, then fires. The enemies are updated in
  place; the bullets and particles are appended to the session in the order of emission.
\<close>

fun enemyLoop ::
  "real \<Rightarrow> real \<Rightarrow> Enemy list \<Rightarrow> rng
     \<Rightarrow> fault + (Enemy list \<times> EnemyBullet list \<times> Particle list \<times> rng)" where
  "enemyLoop px py [] r = Inr ([], [], [], r)"
| "enemyLoop px py (e # es) r =
     (let (e1, bs1, ps1) = moveEnemy e
      in case fireEnemy px py e1 r of
           Inl f \<Rightarrow> Inl f
         | Inr (e2, bs2, ps2, r2) \<Rightarrow>
             (case enemyLoop px py es r2 of
                Inl f \<Rightarrow> Inl f
              | Inr (es', bs, ps, r') \<Rightarrow> Inr (e2 # es', bs1 @ bs2 @ bs, ps1 @ ps2 @ ps, r')))"

definition updateEnemies :: "Game \<Rightarrow> rng \<Rightarrow> fault + (Game \<times> rng)" where
  "updateEnemies g r =
     (case enemyLoop (playerX g) (playerY g) (enemies g) r of
        Inl f \<Rightarrow> Inl f
      | Inr (es, bs, ps, r') \<Rightarrow>
          Inr (g\<lparr>enemies := es, enemyBullets := enemyBullets g @ bs,
                 particles := particles g @ ps\<rparr>, r'))"

definition removeOffscreen :: "Game \<Rightarrow> Game" where
  "removeOffscreen g = g\<lparr>enemies := filter (\<lambda>e. e_y e < screenHeight + 20) (enemies g)\<rparr>"

definition checkStageClear :: "Game \<Rightarrow> Game" where
  "checkStageClear g =
     (if currentSpawn g \<ge> length (waves g) \<and> length (enemies g) = 0
      then g\<lparr>gameState := GameStateStageClear, stageClearTimer := 0,
             stageClearKeyReleased := False\<rparr>
      else g)"

subsection \<open>Playing: the player's fire\<close>

definition playerBullet :: "Game \<Rightarrow> real \<Rightarrow> real \<Rightarrow> Bullet" where
  "playerBullet g deg off =
     (let rad = (pi / 180) * deg; spd = 12.0
      in \<lparr>b_x = playerX g + off, b_y = playerY g,
          b_vx = sin rad * spd, b_vy = - cos rad * spd\<rparr>)"

definition volley :: "Game \<Rightarrow> Bullet list" where
  "volley g = map (\<lambda>(deg, off). playerBullet g deg off) (zip [-3, 0, 3] [0, 8, 16])"

definition playerFire :: "Input \<Rightarrow> Game \<Rightarrow> Game" where
  "playerFire inp g =
     (let g1 = (if KeySpace inp \<and> shootCooldown g = 0
                then g\<lparr>bullets := bullets g @ volley g, shootCooldown := 5\<rparr>
                else g)
      in if shootCooldown g1 > 0 then g1\<lparr>shootCooldown := shootCooldown g1 - 1\<rparr> else g1)"

subsection \<open>Playing: player bullets against enemies\<close>

definition bulletHitsEnemy :: "Bullet \<Rightarrow> Enemy \<Rightarrow> bool" where
  "bulletHitsEnemy b e =
     (let (enemyWidth, enemyHeight) =
            (if enemyType e = EnemyTypeBoss then (60, 40) else (20, 20))
      in b_x b < e_x e + enemyWidth \<and> b_x b + 4 > e_x e \<and>
         b_y b < e_y e + enemyHeight \<and> b_y b + 8 > e_y e)"

text \<open>The inner loop \<^verbatim>\<open>for i := range g.enemies\<close> up to its \<^verbatim>\<open>break\<close>: the first enemy hit.\<close>

fun findHit :: "Bullet \<Rightarrow> Enemy list \<Rightarrow> nat \<Rightarrow> nat option" where
  "findHit b [] i = None"
| "findHit b (e # es) i = (if bulletHitsEnemy b e then Some i else findHit b es (Suc i))"

definition explosionColor :: "int \<Rightarrow> RGBA" where
  "explosionColor t =
     (if t = EnemyTypeStraight then \<lparr>col_r = 255, col_g = 0, col_b = 0, col_a = 255\<rparr>
      else if t = EnemyTypeSine then \<lparr>col_r = 255, col_g = 165, col_b = 0, col_a = 255\<rparr>
      else if t = EnemyTypeSpecial then \<lparr>col_r = 255, col_g = 0, col_b = 255, col_a = 255\<rparr>
      else if t = EnemyTypeBoss then \<lparr>col_r = 255, col_g = 215, col_b = 0, col_a = 255\<rparr>
      else \<lparr>col_r = 0, col_g = 0, col_b = 0, col_a = 0\<rparr>)"

text \<open>
  What a hit on enemy \<open>i\<close> does: \<^verbatim>\<open>hp--\<close>; at \<^verbatim>\<open>hp <= 0\<close> the score, the explosion and
  \<^verbatim>\<open>append(g.enemies[:i], g.enemies[i+1:]...)\<close>.
\<close>

definition applyHit :: "nat \<Rightarrow> Game \<Rightarrow> rng \<Rightarrow> Game \<times> rng" where
  "applyHit i g r =
     (let e = (enemies g ! i)\<lparr>hp := hp (enemies g ! i) - 1\<rparr>;
          g1 = g\<lparr>enemies := (enemies g)[i := e]\<rparr>
      in if hp e \<le> 0 then
           (let g2 = g1\<lparr>score := score g1 + (if enemyType e = EnemyTypeBoss then 1000 else 100)\<rparr>;
                (g3, r3) = createExplosion (e_x e + 10) (e_y e + 10) (explosionColor (enemyType e)) g2 r
            in (g3\<lparr>enemies := take i (enemies g3) @ drop (Suc i) (enemies g3)\<rparr>, r3))
         else (g1, r))"

definition moveBullet :: "Bullet \<Rightarrow> Bullet" where
  "moveBullet b = b\<lparr>b_x := b_x b + b_vx b, b_y := b_y b + b_vy b\<rparr>"

definition bulletInBounds :: "Bullet \<Rightarrow> bool" where
  "bulletInBounds b \<longleftrightarrow> b_y b > -8 \<and> b_x b > -8 \<and> b_x b < screenWidth + 8"

text \<open>
  The loop over the player's bullets; \<open>acc\<close> is \<^verbatim>\<open>newBullets\<close>. A bullet that hits is not
  kept; one that does not is moved and kept while in bounds.
\<close>

fun bulletsLoop :: "Bullet list \<Rightarrow> Bullet list \<Rightarrow> Game \<Rightarrow> rng \<Rightarrow> Game \<times> rng" where
  "bulletsLoop [] acc g r = (g\<lparr>bullets := acc\<rparr>, r)"
| "bulletsLoop (b # bs) acc g r =
     (case findHit b (enemies g) 0 of
        Some i \<Rightarrow> (let (g', r') = applyHit i g r in bulletsLoop bs acc g' r')
      | None \<Rightarrow>
          (let b' = moveBullet b
           in bulletsLoop bs (if bulletInBounds b' then acc @ [b'] else acc) g r))"

definition updateBullets :: "Game \<Rightarrow> rng \<Rightarrow> Game \<times> rng" where
  "updateBullets g r = bulletsLoop (bullets g) [] g r"

subsection \<open>Playing: enemy bullets and collisions with the player\<close>

definition moveEnemyBullet :: "EnemyBullet \<Rightarrow> EnemyBullet" where
  "moveEnemyBullet eb = eb\<lparr>eb_x := eb_x eb + eb_vx eb, eb_y := eb_y eb + eb_vy eb\<rparr>"

definition enemyBulletHitsPlayer :: "Game \<Rightarrow> EnemyBullet \<Rightarrow> bool" where
  "enemyBulletHitsPlayer g eb \<longleftrightarrow>
     eb_x eb < playerX g + 20 \<and> eb_x eb + 4 > playerX g \<and>
     eb_y eb < playerY g + 24 \<and> eb_y eb + 8 > playerY g"

definition enemyBulletInBounds :: "EnemyBullet \<Rightarrow> bool" where
  "enemyBulletInBounds eb \<longleftrightarrow>
     eb_y eb < screenHeight + 8 \<and> eb_x eb > -8 \<and> eb_x eb < screenWidth + 8"

definition green :: RGBA where
  "green = \<lparr>col_r = 0, col_g = 255, col_b = 0, col_a = 255\<rparr>"

text \<open>
  The loop over the enemy bullets; \<open>acc\<close> is \<^verbatim>\<open>newEnemyBullets\<close>. The first bullet that
  overlaps the player ends the loop, and only the bullets kept so far remain.
\<close>

fun enemyBulletsLoop ::
  "EnemyBullet list \<Rightarrow> EnemyBullet list \<Rightarrow> Game \<Rightarrow> rng \<Rightarrow> Game \<times> rng" where
  "enemyBulletsLoop [] acc g r = (g\<lparr>enemyBullets := acc\<rparr>, r)"
| "enemyBulletsLoop (eb # ebs) acc g r =
     (let eb' = moveEnemyBullet eb
      in if enemyBulletHitsPlayer g eb' then
           (let (g1, r1) = createExplosion (playerX g + 10) (playerY g + 12) green g r
            in (g1\<lparr>gameState := GameStatePlayerExplosion, playerExplosionTimer := 0,
                   enemyBullets := acc\<rparr>, r1))
         else enemyBulletsLoop ebs (if enemyBulletInBounds eb' then acc @ [eb'] else acc) g r)"

definition updateEnemyBullets :: "Game \<Rightarrow> rng \<Rightarrow> Game \<times> rng" where
  "updateEnemyBullets g r = enemyBulletsLoop (enemyBullets g) [] g r"

definition playerHitsEnemy :: "Game \<Rightarrow> Enemy \<Rightarrow> bool" where
  "playerHitsEnemy g e =
     (let (enemyWidth, enemyHeight) =
            (if enemyType e = EnemyTypeBoss then (60, 40) else (20, 20))
      in playerX g < e_x e + enemyWidth \<and> playerX g + 20 > e_x e \<and>
         playerY g < e_y e + enemyHeight \<and> playerY g + 24 > e_y e)"

definition recordHighScore :: "Game \<Rightarrow> Game" where
  "recordHighScore g = (if score g > highScore g then g\<lparr>highScore := score g\<rparr> else g)"

fun collisionLoop :: "Enemy list \<Rightarrow> Game \<Rightarrow> rng \<Rightarrow> Game \<times> rng" where
  "collisionLoop [] g r = (g, r)"
| "collisionLoop (e # es) g r =
     (if playerHitsEnemy g e then
        (let g1 = recordHighScore g;
             (g2, r2) = createExplosion (playerX g1 + 10) (playerY g1 + 12) green g1 r
         in (g2\<lparr>gameState := GameStatePlayerExplosion, playerExplosionTimer := 0\<rparr>, r2))
      else collisionLoop es g r)"

definition playerEnemyCollision :: "Game \<Rightarrow> rng \<Rightarrow> Game \<times> rng" where
  "playerEnemyCollision g r = collisionLoop (enemies g) g r"

text \<open>
  The Playing case of \<^verbatim>\<open>Update\<close>, block after block, in two halves: up to the removal
  of the enemies that left the screen (the only half that can divide by zero), and from the
  stage-clear test on.
\<close>

definition playingAdvance :: "Input \<Rightarrow> Game \<Rightarrow> rng \<Rightarrow> fault + (Game \<times> rng)" where
  "playingAdvance inp g r =
     (let g1 = movePlayer inp g;
          (g2, r2) = spawnEnemies g1 r
      in case updateEnemies g2 r2 of
           Inl f \<Rightarrow> Inl f
         | Inr (g3, r3) \<Rightarrow> Inr (removeOffscreen g3, r3))"

definition playingResolve :: "Input \<Rightarrow> Game \<Rightarrow> rng \<Rightarrow> Game \<times> rng" where
  "playingResolve inp g4 r4 =
     (let g5 = checkStageClear g4;
          g6 = playerFire inp g5;
          (g7, r7) = updateBullets g6 r4;
          (g8, r8) = updateEnemyBullets g7 r7
      in playerEnemyCollision g8 r8)"

definition updatePlaying :: "Input \<Rightarrow> Game \<Rightarrow> rng \<Rightarrow> fault + (Game \<times> rng)" where
  "updatePlaying inp g r =
     (case playingAdvance inp g r of
        Inl f \<Rightarrow> Inl f
      | Inr (g4, r4) \<Rightarrow> Inr (playingResolve inp g4 r4))"

subsection \<open>The other states\<close>

definition updatePlayerExplosion :: "Game \<Rightarrow> Game" where
  "updatePlayerExplosion g =
     (let g1 = g\<lparr>playerExplosionTimer := playerExplosionTimer g + 1\<rparr>
      in if playerExplosionTimer g1 > 60 then g1\<lparr>gameState := GameStateGameOver\<rparr> else g1)"

text \<open>
  The stage advance, written twice in the source (key press and timeout): the next
  stage, or GameOver with the high score recorded after the last one.
\<close>

definition advanceStage :: "Stage list \<Rightarrow> Game \<Rightarrow> Game" where
  "advanceStage stages g =
     (let g1 = g\<lparr>currentStage := currentStage g + 1\<rparr>
      in if currentStage g1 \<ge> length stages
         then recordHighScore (g1\<lparr>gameState := GameStateGameOver\<rparr>)
         else g1\<lparr>waves := Waves (stages ! currentStage g1), currentSpawn := 0, waveTimer := 0,
                 enemies := [], bullets := [], enemyBullets := [],
                 gameState := GameStatePlaying\<rparr>)"

definition updateStageClear :: "Input \<Rightarrow> Stage list \<Rightarrow> Game \<Rightarrow> Game" where
  "updateStageClear inp stages g =
     (let g1 = g\<lparr>stageClearTimer := stageClearTimer g + 1\<rparr>;
          g2 = (if stageClearTimer g1 > 60 \<and> \<not> KeySpace inp
                then g1\<lparr>stageClearKeyReleased := True\<rparr> else g1)
      in if stageClearTimer g2 > 60 \<and> stageClearKeyReleased g2 \<and> KeySpace inp
         then advanceStage stages g2
         else if stageClearTimer g2 > 120 then advanceStage stages g2
         else g2)"

text \<open>
  The enemy movement of the GameOver case: the boss has no case, and the Special enemy
  in phase 1 moves by its speed alone.
\<close>

definition moveSpecialGameOver :: "Enemy \<Rightarrow> Enemy" where
  "moveSpecialGameOver e =
     (if phase e = 0 then
        (let e1 = e\<lparr>e_y := e_y e + speed e\<rparr>
         in if e_y e1 > screenHeight / 2 then e1\<lparr>phase := 1\<rparr> else e1)
      else if phase e = 1 then
        (let e1 = e\<lparr>e_x := e_x e + speed e\<rparr>
         in if e_x e1 > screenWidth - 40 then e1\<lparr>phase := 2\<rparr> else e1)
      else if phase e = 2 then e\<lparr>e_y := e_y e + speed e\<rparr>
      else e)"

definition moveEnemyGameOver :: "Enemy \<Rightarrow> Enemy" where
  "moveEnemyGameOver e0 =
     (let e = e0\<lparr>e_time := e_time e0 + 0.05\<rparr>
      in if enemyType e = EnemyTypeStraight then e\<lparr>e_y := e_y e + speed e\<rparr>
         else if enemyType e = EnemyTypeSine then
           e\<lparr>e_y := e_y e + speed e, e_x := e_x e + sin (e_time e) * 3\<rparr>
         else if enemyType e = EnemyTypeSpecial then moveSpecialGameOver e
         else e)"

definition updateGameOver :: "Input \<Rightarrow> Stage list \<Rightarrow> Game \<Rightarrow> rng \<Rightarrow> fault + (Game \<times> rng)" where
  "updateGameOver inp stages g r =
     (let g1 = removeOffscreen (g\<lparr>enemies := map moveEnemyGameOver (enemies g)\<rparr>)
      in if KeyR inp then
           (case NewGame (audioInitOk inp) stages r of
              Inl f \<Rightarrow> Inl f
            | Inr (g2, r2) \<Rightarrow> Inr (g2\<lparr>gameState := GameStatePlaying\<rparr>, r2))
         else Inr (g1, r))"

subsection \<open>One frame\<close>

definition Update :: "Input \<Rightarrow> Stage list \<Rightarrow> Game \<Rightarrow> rng \<Rightarrow> fault + (Game \<times> rng)" where
  "Update inp stages g0 r0 =
     (let (st, r) = updateStars (stars g0) r0;
          g = g0\<lparr>stars := st, particles := updateParticles (particles g0)\<rparr>
      in if gameState g = GameStateTitle then
           Inr ((if KeySpace inp then g\<lparr>gameState := GameStatePlaying\<rparr> else g), r)
         else if gameState g = GameStatePlaying then updatePlaying inp g r
         else if gameState g = GameStatePlayerExplosion then Inr (updatePlayerExplosion g, r)
         else if gameState g = GameStateStageClear then Inr (updateStageClear inp stages g, r)
         else if gameState g = GameStateGameOver then updateGameOver inp stages g r
         else Inr (g, r))"

subsection \<open>Runs of the scheduler and of the boss\<close>



text \<open>
  The movement switch alone on one enemy, frame after frame, and the bullets it appends in
  the frame that follows \<open>n\<close> frames. The fire block that comes after the switch in the loop
  writes the bullet cooldown of the enemy and nothing else of it.
\<close>

fun bossRun :: "nat \<Rightarrow> Enemy \<Rightarrow> Enemy" where
  "bossRun 0 e = e"
| "bossRun (Suc n) e = fst (moveEnemy (bossRun n e))"

definition bossVolley :: "nat \<Rightarrow> Enemy \<Rightarrow> EnemyBullet list" where
  "bossVolley n e = fst (snd (moveEnemy (bossRun n e)))"

subsection \<open>Predicates used in the statements\<close>

text \<open>What \<^verbatim>\<open>createExplosion\<close> gives every particle it creates at \<open>(x, y)\<close>.\<close>

definition explosionParticleAt :: "real \<Rightarrow> real \<Rightarrow> Particle \<Rightarrow> bool" where
  "explosionParticleAt x y p \<longleftrightarrow>
     p_x p = x \<and> p_y p = y \<and> alpha p = 1 \<and> 30 \<le> lifetime p \<and> lifetime p < 50 \<and> ptype p = 0"

text \<open>The number the boss case tests its timer against, state by state.\<close>

definition phaseLimit :: "int \<Rightarrow> int" where
  "phaseLimit s = (if s = 0 then 120 else if s = 1 then 60 else if s = 2 then 80 else 90)"

subsection \<open>Sample values\<close>

text \<open>
  A Special enemy as the scheduler spawns it from a wave that turns left (the speed left
  at its default), later in its traverse phase.
\<close>

definition leftTurner :: Enemy where
  "leftTurner = (makeEnemy \<lparr>EnemyType = EnemyTypeSpecial, WaveX = 440, Delay = 30,
      ShootsBullet = False, BulletType = 0, Speed = 0, TurnDirection = -1\<rparr> 0)
      \<lparr>e_y := 242, phase := 1\<rparr>"

text \<open>A session in the Playing state with nothing on screen, and two inputs.\<close>

definition emptyPlaying :: Game where
  "emptyPlaying =
     \<lparr>playerX = 320, playerY = 408, bullets = [], shootCooldown = 0, stars = [],
      enemies = [], waves = [], waveTimer = 0, currentSpawn = 0, score = 0,
      gameState = GameStatePlaying, highScore = 0, particles = [], currentStage = 0,
      stageClearTimer = 0, stageClearKeyReleased = False, playerExplosionTimer = 0,
      enemyBullets = []\<rparr>"

definition noKeys :: Input where
  "noKeys = \<lparr>KeySpace = False, KeyLeft = False, KeyRight = False, KeyUp = False,
             KeyDown = False, KeyR = False, audioInitOk = True\<rparr>"

definition fireKey :: Input where
  "fireKey = noKeys\<lparr>KeySpace := True\<rparr>"

text \<open>A stage of three waves with the delays 0, 30 and 30.\<close>

definition wave :: "int \<Rightarrow> int \<Rightarrow> int \<Rightarrow> Wave" where
  "wave t x d = \<lparr>EnemyType = t, WaveX = x, Delay = d, ShootsBullet = False, BulletType = 0,
                 Speed = 0, TurnDirection = 0\<rparr>"


text \<open>A Straight enemy that has one hit point left, and a bullet overlapping it.\<close>

definition woundedGame :: Game where
  "woundedGame = emptyPlaying
     \<lparr>waves := [wave 0 100 0], currentSpawn := 1, waveTimer := 62,
      enemies := [(makeEnemy (wave 0 100 0) 0)\<lparr>e_y := 100, hp := 1\<rparr>]\<rparr>"

definition hitBullet :: Bullet where
  "hitBullet = \<lparr>b_x = 105, b_y = 112, b_vx = 0, b_vy = -12\<rparr>"

text \<open>
  A stage list of one stage, a finished session that holds a high score of 500, and the
  restart key.
\<close>

definition stageOne :: Stage where
  "stageOne = \<lparr>Name = ''Stage 1'', Waves = [wave 0 100 0, wave 0 320 30, wave 0 540 30]\<rparr>"

definition gameOver500 :: Game where
  "gameOver500 = emptyPlaying\<lparr>gameState := GameStateGameOver, score := 500, highScore := 500,
                              currentStage := 1\<rparr>"

definition restartKey :: Input where
  "restartKey = noKeys\<lparr>KeyR := True\<rparr>"

text \<open>
  A Special enemy of speed 23 in its traverse, aiming at the player, one frame before it
  fires, 23 to the left of a player that stands at its height: the two hitboxes do not
  overlap, and the next move puts the enemy exactly on the player's position.
\<close>

definition aimer :: Enemy where
  "aimer = (makeEnemy \<lparr>EnemyType = EnemyTypeSpecial, WaveX = -784, Delay = 0,
      ShootsBullet = True, BulletType = 0, Speed = 23, TurnDirection = 1\<rparr> 0)
      \<lparr>e_x := 297, e_y := 256, phase := 1, bulletCooldown := 1\<rparr>"

definition aimedAt :: Game where
  "aimedAt = emptyPlaying\<lparr>playerY := 256, waveTimer := 60, currentSpawn := 1,
     waves := [\<lparr>EnemyType = EnemyTypeSpecial, WaveX = -784, Delay = 0,
      ShootsBullet = True, BulletType = 0, Speed = 23, TurnDirection = 1\<rparr>],
     enemies := [aimer]\<rparr>"

text \<open>A random source that always draws 0.\<close>

definition zeros :: rng where
  "zeros = (\<lambda>_. 0)"

text \<open>
  The last frame of a stage: its only wave has been spawned, the enemy has fired straight
  down and has been shot since (100 points), and its bullet is 4 above the player's hitbox.
\<close>

definition shooterWave :: Wave where
  "shooterWave = (wave 0 315 0)\<lparr>ShootsBullet := True, BulletType := 1\<rparr>"

definition lastBullet :: Game where
  "lastBullet = emptyPlaying
     \<lparr>waves := [shooterWave], currentSpawn := 1, waveTimer := 90, score := 100,
      enemyBullets := [\<lparr>eb_x = 325, eb_y = 400, eb_vx = 0, eb_vy = 4\<rparr>]\<rparr>"

text \<open>A stage with no wave, on its first frame.\<close>

definition emptyStage :: Game where
  "emptyStage = emptyPlaying\<lparr>waves := []\<rparr>"

text \<open>
  The same bullet in the middle of a stage (a second wave is due at frame 1000), and, for
  comparison, the session where the enemy itself is where the bullet was.
\<close>

definition bulletHit :: Game where
  "bulletHit = lastBullet\<lparr>waves := [shooterWave, wave 0 320 1000]\<rparr>"

definition bodyHit :: Game where
  "bodyHit = bulletHit\<lparr>enemyBullets := [],
                       enemies := [(makeEnemy shooterWave 0)\<lparr>e_y := 400\<rparr>]\<rparr>"

text \<open>A boss as the scheduler spawns it, with the default speed and no aimed fire.\<close>

definition bossWave :: Wave where
  "bossWave = wave EnemyTypeBoss 290 0"

definition freshBoss :: Enemy where
  "freshBoss = makeEnemy bossWave 0"

section \<open>Properties\<close>

lemmas consts_defs =
  screenWidth_def screenHeight_def
  GameStateTitle_def GameStatePlaying_def GameStateStageClear_def
  GameStatePlayerExplosion_def GameStateGameOver_def
  EnemyTypeStraight_def EnemyTypeSine_def EnemyTypeSpecial_def EnemyTypeBoss_def

subsection \<open>Particles\<close>

lemma updateParticles_filter:
  "updateParticles ps = filter particleAlive (map stepParticle ps)"
  by (induction ps) (simp_all add: Let_def)

lemma stepParticle_lifetime: "lifetime (stepParticle p) = lifetime p - 1"
  by (simp add: stepParticle_def Let_def)

lemma stepParticle_alpha:
  "alpha (stepParticle p) = alpha p - 1 / real_of_int (lifetime p)"
  by (simp add: stepParticle_def Let_def)

lemma stepParticle_alive_decreases:
  assumes "particleAlive (stepParticle p)"
  shows "alpha (stepParticle p) < alpha p"
proof -
  from assms have "lifetime p > 1"
    by (simp add: particleAlive_def stepParticle_lifetime)
  then have "1 / real_of_int (lifetime p) > 0" by simp
  then show ?thesis by (simp add: stepParticle_alpha)
qed

subsection \<open>Explosions\<close>

lemma Intn_range: "0 < n \<Longrightarrow> 0 \<le> fst (Intn n r) \<and> fst (Intn n r) < int n"
  by (simp add: Intn_def)

lemma explosionParticleAt_alive: "explosionParticleAt x y p \<Longrightarrow> particleAlive p"
  by (simp add: explosionParticleAt_def particleAlive_def)

lemma all_explosion_alive:
  "\<forall>p \<in> set ps. explosionParticleAt x y p \<Longrightarrow> \<forall>p \<in> set ps. particleAlive p"
  by (blast intro: explosionParticleAt_alive)

lemma newExplosionParticle_props:
  "newExplosionParticle x y r = (p, r') \<Longrightarrow> explosionParticleAt x y p"
  using Intn_range[of 20]
  by (auto simp: newExplosionParticle_def Let_def explosionParticleAt_def Intn_def
           split: prod.splits)

lemma explosionLoop_shape:
  "\<exists>new r'. explosionLoop n x y ps r = (ps @ new, r') \<and> length new = n
            \<and> (\<forall>q \<in> set new. explosionParticleAt x y q)"
proof (induction n arbitrary: ps r)
  case 0
  show ?case by simp
next
  case (Suc n)
  obtain p r1 where p: "newExplosionParticle x y r = (p, r1)" by (cases "newExplosionParticle x y r")
  from Suc[of "ps @ [p]" r1] obtain new r' where
    n: "explosionLoop n x y (ps @ [p]) r1 = ((ps @ [p]) @ new, r')" "length new = n"
       "(\<forall>q \<in> set new. explosionParticleAt x y q)" by blast
  have "explosionLoop (Suc n) x y ps r = (ps @ (p # new), r')"
    using p n by simp
  moreover have "length (p # new) = Suc n" using n by simp
  moreover have "\<forall>q \<in> set (p # new). explosionParticleAt x y q"
    using n newExplosionParticle_props[OF p] by simp
  ultimately show ?case by blast
qed

lemma createExplosion_shape:
  "\<exists>new r'. createExplosion x y c g r = (g\<lparr>particles := particles g @ new\<rparr>, r')
            \<and> length new = 20 \<and> (\<forall>q \<in> set new. explosionParticleAt x y q)"
proof -
  obtain new r' where "explosionLoop 20 x y (particles g) r = (particles g @ new, r')"
    "length new = 20" "(\<forall>q \<in> set new. explosionParticleAt x y q)"
    using explosionLoop_shape[of 20 x y "particles g" r] by blast
  then show ?thesis by (auto simp: createExplosion_def)
qed

subsection \<open>The loops of the Playing case\<close>

lemma findHit_Some:
  "findHit b es k = Some i \<Longrightarrow>
     k \<le> i \<and> i - k < length es \<and> bulletHitsEnemy b (es ! (i - k))
     \<and> (\<forall>j < i - k. \<not> bulletHitsEnemy b (es ! j))"
proof (induction es arbitrary: k)
  case Nil
  then show ?case by simp
next
  case (Cons e es)
  show ?case
  proof (cases "bulletHitsEnemy b e")
    case True
    with Cons.prems show ?thesis by simp
  next
    case False
    with Cons.prems have h: "findHit b es (Suc k) = Some i" by simp
    from Cons.IH[OF h] have ih: "Suc k \<le> i" "i - Suc k < length es"
      "bulletHitsEnemy b (es ! (i - Suc k))" "\<forall>j < i - Suc k. \<not> bulletHitsEnemy b (es ! j)"
      by auto
    from ih(1) have eq: "i - k = Suc (i - Suc k)" by simp
    have "\<forall>j < i - k. \<not> bulletHitsEnemy b ((e # es) ! j)"
    proof (intro allI impI)
      fix j assume "j < i - k"
      then show "\<not> bulletHitsEnemy b ((e # es) ! j)"
        using False ih(4) eq by (cases j) auto
    qed
    then show ?thesis using ih eq by simp
  qed
qed

lemma findHit_None:
  "findHit b es k = None \<longleftrightarrow> (\<forall>e \<in> set es. \<not> bulletHitsEnemy b e)"
  by (induction es arbitrary: k) auto

lemma applyHit_survives:
  assumes "1 < hp (enemies g ! i)"
  shows "applyHit i g r =
           (g\<lparr>enemies := (enemies g)[i := (enemies g ! i)\<lparr>hp := hp (enemies g ! i) - 1\<rparr>]\<rparr>, r)"
  using assms by (simp add: applyHit_def Let_def)

lemma applyHit_kills:
  assumes "hp (enemies g ! i) \<le> 1" and "i < length (enemies g)"
  shows "\<exists>new r'. applyHit i g r =
           (g\<lparr>enemies := take i (enemies g) @ drop (Suc i) (enemies g),
              score := score g + (if enemyType (enemies g ! i) = EnemyTypeBoss then 1000 else 100),
              particles := particles g @ new\<rparr>, r')
         \<and> length new = 20
         \<and> (\<forall>q \<in> set new. explosionParticleAt (e_x (enemies g ! i) + 10) (e_y (enemies g ! i) + 10) q)"
proof -
  define e where "e = (enemies g ! i)\<lparr>hp := hp (enemies g ! i) - 1\<rparr>"
  define g2 where "g2 = g\<lparr>enemies := (enemies g)[i := e],
     score := score g + (if enemyType e = EnemyTypeBoss then 1000 else 100)\<rparr>"
  obtain new r' where ce:
    "createExplosion (e_x e + 10) (e_y e + 10) (explosionColor (enemyType e)) g2 r
       = (g2\<lparr>particles := particles g2 @ new\<rparr>, r')"
    "length new = 20" "(\<forall>q \<in> set new. explosionParticleAt (e_x e + 10) (e_y e + 10) q)"
    using createExplosion_shape by blast
  have "applyHit i g r =
      ((g2\<lparr>particles := particles g2 @ new\<rparr>)
         \<lparr>enemies := take i (enemies g2) @ drop (Suc i) (enemies g2)\<rparr>, r')"
    using assms(1) ce(1) by (simp add: applyHit_def Let_def e_def g2_def)
  moreover have "take i (enemies g2) @ drop (Suc i) (enemies g2)
       = take i (enemies g) @ drop (Suc i) (enemies g)"
    using assms(2) by (simp add: g2_def)
  ultimately have "applyHit i g r =
           (g\<lparr>enemies := take i (enemies g) @ drop (Suc i) (enemies g),
              score := score g + (if enemyType (enemies g ! i) = EnemyTypeBoss then 1000 else 100),
              particles := particles g @ new\<rparr>, r')"
    by (simp add: g2_def e_def)
  then show ?thesis using ce(2,3) by (auto simp: e_def)
qed

lemma applyHit_shape:
  assumes "i < length (enemies g)"
  shows "\<exists>E S new r'. applyHit i g r = (g\<lparr>enemies := E, score := S, particles := particles g @ new\<rparr>, r')
           \<and> (\<forall>q \<in> set new. particleAlive q)
           \<and> ((\<forall>e \<in> set (enemies g). 0 < hp e) \<longrightarrow> (\<forall>e \<in> set E. 0 < hp e))"
proof (cases "1 < hp (enemies g ! i)")
  case True
  let ?E = "(enemies g)[i := (enemies g ! i)\<lparr>hp := hp (enemies g ! i) - 1\<rparr>]"
  have "\<forall>e \<in> set ?E. 0 < hp e" if inv: "\<forall>e \<in> set (enemies g). 0 < hp e"
  proof
    fix e assume "e \<in> set ?E"
    then have "e \<in> insert ((enemies g ! i)\<lparr>hp := hp (enemies g ! i) - 1\<rparr>) (set (enemies g))"
      using set_update_subset_insert by fastforce
    then show "0 < hp e" using True inv by auto
  qed
  moreover have "applyHit i g r = (g\<lparr>enemies := ?E, score := score g, particles := particles g @ []\<rparr>, r)"
    using applyHit_survives[OF True] by simp
  ultimately show ?thesis by (metis empty_iff list.set(1))
next
  case False
  then have le: "hp (enemies g ! i) \<le> 1" by simp
  from applyHit_kills[OF le assms(1), of r] obtain new r' where
    k: "applyHit i g r =
           (g\<lparr>enemies := take i (enemies g) @ drop (Suc i) (enemies g),
              score := score g + (if enemyType (enemies g ! i) = EnemyTypeBoss then 1000 else 100),
              particles := particles g @ new\<rparr>, r')"
       "\<forall>q \<in> set new. explosionParticleAt (e_x (enemies g ! i) + 10) (e_y (enemies g ! i) + 10) q"
    by blast
  have "\<forall>e \<in> set (take i (enemies g) @ drop (Suc i) (enemies g)). 0 < hp e"
    if "\<forall>e \<in> set (enemies g). 0 < hp e"
    using that by (auto dest: in_set_takeD in_set_dropD)
  then show ?thesis using k all_explosion_alive by blast
qed

lemma bulletsLoop_shape:
  "\<exists>B E S new r'. bulletsLoop bs acc g r =
            (g\<lparr>bullets := B, enemies := E, score := S, particles := particles g @ new\<rparr>, r')
           \<and> (\<forall>q \<in> set new. particleAlive q)
           \<and> ((\<forall>e \<in> set (enemies g). 0 < hp e) \<longrightarrow> (\<forall>e \<in> set E. 0 < hp e))"
proof (induction bs arbitrary: acc g r)
  case Nil
  have "bulletsLoop [] acc g r =
     (g\<lparr>bullets := acc, enemies := enemies g, score := score g, particles := particles g @ []\<rparr>, r)"
    by simp
  then show ?case by (metis empty_iff list.set(1))
next
  case (Cons b bs)
  show ?case
  proof (cases "findHit b (enemies g) 0")
    case None
    then have "bulletsLoop (b # bs) acc g r =
       bulletsLoop bs (if bulletInBounds (moveBullet b) then acc @ [moveBullet b] else acc) g r"
      by (simp add: Let_def)
    then show ?thesis using Cons.IH by simp
  next
    case (Some i)
    from findHit_Some[OF Some] have i: "i < length (enemies g)" by simp
    from applyHit_shape[OF i, of r] obtain E1 S1 new1 r1 where
      a: "applyHit i g r = (g\<lparr>enemies := E1, score := S1, particles := particles g @ new1\<rparr>, r1)"
         "\<forall>q \<in> set new1. particleAlive q"
         "(\<forall>e \<in> set (enemies g). 0 < hp e) \<longrightarrow> (\<forall>e \<in> set E1. 0 < hp e)" by blast
    define g1 where "g1 = g\<lparr>enemies := E1, score := S1, particles := particles g @ new1\<rparr>"
    from Cons.IH[of acc g1 r1] obtain B E S new r' where
      ih: "bulletsLoop bs acc g1 r1 =
            (g1\<lparr>bullets := B, enemies := E, score := S, particles := particles g1 @ new\<rparr>, r')"
          "\<forall>q \<in> set new. particleAlive q"
          "(\<forall>e \<in> set (enemies g1). 0 < hp e) \<longrightarrow> (\<forall>e \<in> set E. 0 < hp e)" by blast
    have "bulletsLoop (b # bs) acc g r = bulletsLoop bs acc g1 r1"
      using Some a(1) by (simp add: g1_def)
    then have "bulletsLoop (b # bs) acc g r =
         (g\<lparr>bullets := B, enemies := E, score := S, particles := particles g @ (new1 @ new)\<rparr>, r')"
      using ih(1) by (simp add: g1_def)
    moreover have "\<forall>q \<in> set (new1 @ new). particleAlive q" using a(2) ih(2) by auto
    moreover have "(\<forall>e \<in> set (enemies g). 0 < hp e) \<longrightarrow> (\<forall>e \<in> set E. 0 < hp e)"
      using a(3) ih(3) by (simp add: g1_def)
    ultimately show ?thesis by blast
  qed
qed

lemma enemyBulletsLoop_shape:
  "\<exists>EB new r'. enemyBulletsLoop ebs acc g r =
     (if \<exists>eb \<in> set ebs. enemyBulletHitsPlayer g (moveEnemyBullet eb)
      then (g\<lparr>enemyBullets := EB, particles := particles g @ new,
              gameState := GameStatePlayerExplosion, playerExplosionTimer := 0\<rparr>, r')
      else (g\<lparr>enemyBullets := EB\<rparr>, r))
     \<and> ((\<exists>eb \<in> set ebs. enemyBulletHitsPlayer g (moveEnemyBullet eb)) \<longrightarrow> length new = 20)
     \<and> (\<forall>q \<in> set new. explosionParticleAt (playerX g + 10) (playerY g + 12) q)"
proof (induction ebs arbitrary: acc)
  case Nil
  have "enemyBulletsLoop [] acc g r = (g\<lparr>enemyBullets := acc\<rparr>, r)" by simp
  then show ?case by (metis empty_iff list.set(1))
next
  case (Cons eb ebs)
  show ?case
  proof (cases "enemyBulletHitsPlayer g (moveEnemyBullet eb)")
    case True
    obtain new r' where ce:
      "createExplosion (playerX g + 10) (playerY g + 12) green g r
         = (g\<lparr>particles := particles g @ new\<rparr>, r')" "length new = 20"
      "\<forall>q \<in> set new. explosionParticleAt (playerX g + 10) (playerY g + 12) q"
      using createExplosion_shape by blast
    have "enemyBulletsLoop (eb # ebs) acc g r =
       (g\<lparr>enemyBullets := acc, particles := particles g @ new,
              gameState := GameStatePlayerExplosion, playerExplosionTimer := 0\<rparr>, r')"
      using True ce(1) by (simp add: Let_def)
    then show ?thesis using True ce(2,3) by auto
  next
    case False
    then have "enemyBulletsLoop (eb # ebs) acc g r =
      enemyBulletsLoop ebs (if enemyBulletInBounds (moveEnemyBullet eb)
                            then acc @ [moveEnemyBullet eb] else acc) g r"
      by (simp add: Let_def)
    then show ?thesis using False Cons.IH by simp
  qed
qed

lemma collisionLoop_shape:
  "\<exists>new r'. collisionLoop es g r =
     (if \<exists>e \<in> set es. playerHitsEnemy g e
      then (g\<lparr>highScore := (if score g > highScore g then score g else highScore g),
              particles := particles g @ new,
              gameState := GameStatePlayerExplosion, playerExplosionTimer := 0\<rparr>, r')
      else (g, r))
     \<and> ((\<exists>e \<in> set es. playerHitsEnemy g e) \<longrightarrow> length new = 20)
     \<and> (\<forall>q \<in> set new. explosionParticleAt (playerX g + 10) (playerY g + 12) q)"
proof (induction es)
  case Nil
  show ?case by (simp, metis empty_iff list.set(1))
next
  case (Cons e es)
  show ?case
  proof (cases "playerHitsEnemy g e")
    case True
    define g1 where "g1 = recordHighScore g"
    obtain new r' where ce:
      "createExplosion (playerX g1 + 10) (playerY g1 + 12) green g1 r
         = (g1\<lparr>particles := particles g1 @ new\<rparr>, r')" "length new = 20"
      "\<forall>q \<in> set new. explosionParticleAt (playerX g1 + 10) (playerY g1 + 12) q"
      using createExplosion_shape by blast
    have "collisionLoop (e # es) g r =
       (g\<lparr>highScore := (if score g > highScore g then score g else highScore g),
              particles := particles g @ new,
              gameState := GameStatePlayerExplosion, playerExplosionTimer := 0\<rparr>, r')"
      using True ce(1) by (simp add: Let_def g1_def recordHighScore_def)
    moreover have "playerX g1 = playerX g" "playerY g1 = playerY g"
      by (simp_all add: g1_def recordHighScore_def)
    ultimately show ?thesis using True ce(2,3) by auto
  next
    case False
    then show ?thesis using Cons.IH by simp
  qed
qed

lemma moveEnemy_preserves:
  "moveEnemy e = (e', bs, ps) \<Longrightarrow>
     hp e' = hp e \<and> enemyType e' = enemyType e \<and> speed e' = speed e
     \<and> (\<forall>q \<in> set ps. particleAlive q)"
  by (auto simp: moveEnemy_def moveBoss_def moveSpecial_def Let_def bossFlash_def
                 particleAlive_def split: if_splits prod.splits)

lemma fireEnemy_preserves:
  "fireEnemy px py e r = Inr (e', bs, ps, r') \<Longrightarrow>
     hp e' = hp e \<and> enemyType e' = enemyType e \<and> speed e' = speed e
     \<and> (\<forall>q \<in> set ps. particleAlive q)"
  by (auto simp: fireEnemy_def shot_def Let_def particleAlive_def
           split: if_splits prod.splits sum.splits)

lemma enemyLoop_preserves:
  "enemyLoop px py es r = Inr (es', bs, ps, r') \<Longrightarrow>
     map hp es' = map hp es \<and> map enemyType es' = map enemyType es
     \<and> (\<forall>q \<in> set ps. particleAlive q)"
proof (induction es arbitrary: r es' bs ps r')
  case Nil
  then show ?case by simp
next
  case (Cons e es)
  obtain e1 bs1 ps1 where m: "moveEnemy e = (e1, bs1, ps1)" by (cases "moveEnemy e")
  from Cons.prems m obtain e2 bs2 ps2 r2 where f: "fireEnemy px py e1 r = Inr (e2, bs2, ps2, r2)"
    by (auto split: sum.splits)
  from Cons.prems m f obtain es2 bs3 ps3 where
    l: "enemyLoop px py es r2 = Inr (es2, bs3, ps3, r')"
    and r: "es' = e2 # es2" "ps = ps1 @ ps2 @ ps3"
    by (auto split: sum.splits)
  from Cons.IH[OF l] moveEnemy_preserves[OF m] fireEnemy_preserves[OF f] r
  show ?case by auto
qed

lemma hpOfType_pos: "0 < hpOfType t"
  by (simp add: hpOfType_def)

lemma makeEnemy_hp: "0 < hp (makeEnemy w cd)"
  by (simp add: makeEnemy_def hpOfType_pos)

lemma spawnEnemies_eq:
  "spawnEnemies g r =
     (if currentSpawn g < length (waves g) \<and> totalDelay (waves g) (currentSpawn g) \<le> waveTimer g
      then (g\<lparr>enemies := enemies g @ [makeEnemy (waves g ! currentSpawn g) (fst (Intn 60 r))],
              currentSpawn := currentSpawn g + 1, waveTimer := waveTimer g + 1\<rparr>, snd (Intn 60 r))
      else (g\<lparr>waveTimer := waveTimer g + 1\<rparr>, r))"
  by (simp add: spawnEnemies_def Let_def split: prod.splits)

lemma movePlayer_shape: "\<exists>X Y. movePlayer inp g = g\<lparr>playerX := X, playerY := Y\<rparr>"
proof -
  have "movePlayer inp g = g\<lparr>playerX := playerX (movePlayer inp g), playerY := playerY (movePlayer inp g)\<rparr>"
    by (simp add: movePlayer_def Let_def)
  then show ?thesis by blast
qed

lemma playingAdvance_shape:
  assumes "playingAdvance inp g r = Inr (g4, r4)"
  shows "\<exists>X Y E EBnew Pnew.
           g4 = g\<lparr>playerX := X, playerY := Y, enemies := E,
                  currentSpawn := (if currentSpawn g < length (waves g)
                                      \<and> totalDelay (waves g) (currentSpawn g) \<le> waveTimer g
                                   then currentSpawn g + 1 else currentSpawn g),
                  waveTimer := waveTimer g + 1,
                  enemyBullets := enemyBullets g @ EBnew,
                  particles := particles g @ Pnew\<rparr>
         \<and> (\<forall>q \<in> set Pnew. particleAlive q)
         \<and> ((\<forall>e \<in> set (enemies g). 0 < hp e) \<longrightarrow> (\<forall>e \<in> set E. 0 < hp e))"
proof -
  obtain X Y where mp: "movePlayer inp g = g\<lparr>playerX := X, playerY := Y\<rparr>"
    using movePlayer_shape by blast
  define g1 where "g1 = g\<lparr>playerX := X, playerY := Y\<rparr>"
  obtain g2 r2 where sp: "spawnEnemies g1 r = (g2, r2)" by (cases "spawnEnemies g1 r")
  let ?due = "currentSpawn g < length (waves g) \<and> totalDelay (waves g) (currentSpawn g) \<le> waveTimer g"
  define E2 where "E2 = (if ?due
      then enemies g @ [makeEnemy (waves g ! currentSpawn g) (fst (Intn 60 r))] else enemies g)"
  have g2: "g2 = g\<lparr>playerX := X, playerY := Y, enemies := E2,
                   currentSpawn := (if ?due then currentSpawn g + 1 else currentSpawn g),
                   waveTimer := waveTimer g + 1\<rparr>"
    using sp by (auto simp: spawnEnemies_eq g1_def E2_def split: if_splits)
  have inv2: "(\<forall>e \<in> set (enemies g). 0 < hp e) \<longrightarrow> (\<forall>e \<in> set (enemies g2). 0 < hp e)"
    using sp by (auto simp: spawnEnemies_eq g1_def makeEnemy_hp split: if_splits)
  from assms mp sp obtain g3 where ue: "updateEnemies g2 r2 = Inr (g3, r4)"
    and g4: "g4 = removeOffscreen g3"
    by (auto simp: playingAdvance_def Let_def g1_def split: sum.splits)
  from ue obtain es bs ps where el: "enemyLoop (playerX g2) (playerY g2) (enemies g2) r2 = Inr (es, bs, ps, r4)"
    and g3: "g3 = g2\<lparr>enemies := es, enemyBullets := enemyBullets g2 @ bs, particles := particles g2 @ ps\<rparr>"
    by (auto simp: updateEnemies_def split: sum.splits)
  from enemyLoop_preserves[OF el] have pr: "map hp es = map hp (enemies g2)"
    "\<forall>q \<in> set ps. particleAlive q" by auto
  have inv3: "(\<forall>e \<in> set (enemies g2). 0 < hp e) \<longrightarrow> (\<forall>e \<in> set es. 0 < hp e)"
  proof
    assume a: "\<forall>e \<in> set (enemies g2). 0 < hp e"
    then have "\<forall>h \<in> set (map hp (enemies g2)). 0 < h" by simp
    then have "\<forall>h \<in> set (map hp es). 0 < h" using pr(1) by simp
    then show "\<forall>e \<in> set es. 0 < hp e" by simp
  qed
  let ?E = "filter (\<lambda>e. e_y e < screenHeight + 20) es"
  have "g4 = g\<lparr>playerX := X, playerY := Y, enemies := ?E,
                  currentSpawn := (if ?due then currentSpawn g + 1 else currentSpawn g),
                  waveTimer := waveTimer g + 1,
                  enemyBullets := enemyBullets g @ bs,
                  particles := particles g @ ps\<rparr>"
    by (simp add: g4 g3 removeOffscreen_def, simp add: g2)
  moreover have "(\<forall>e \<in> set (enemies g). 0 < hp e) \<longrightarrow> (\<forall>e \<in> set ?E. 0 < hp e)"
    using inv2 inv3 by auto
  ultimately show ?thesis using pr(2) by blast
qed

subsection \<open>The two movement paths of the Special enemy\<close>

lemma makeEnemy_speed: "speed (makeEnemy w cd) \<noteq> 0"
  by (simp add: makeEnemy_def)

subsection \<open>The player's fire\<close>

lemma volley_eq:
  "volley g = [playerBullet g (-3) 0, playerBullet g 0 8, playerBullet g 3 16]"
  by (simp add: volley_def)

lemma playerBullet_speed: "(b_vx (playerBullet g d off))\<^sup>2 + (b_vy (playerBullet g d off))\<^sup>2 = 144"
proof -
  have "(sin a * 12)\<^sup>2 + (- cos a * 12)\<^sup>2 = 144" for a :: real
    by (simp add: power_mult_distrib sin_squared_eq)
  then show ?thesis by (simp add: playerBullet_def Let_def)
qed

lemma playerFire_fires:
  "KeySpace inp \<Longrightarrow> shootCooldown g = 0 \<Longrightarrow>
     playerFire inp g = g\<lparr>bullets := bullets g @ volley g, shootCooldown := 4\<rparr>"
  by (simp add: playerFire_def Let_def)

lemma playerFire_idle:
  "\<not> (KeySpace inp \<and> shootCooldown g = 0) \<Longrightarrow>
     playerFire inp g = g\<lparr>shootCooldown := (if shootCooldown g > 0 then shootCooldown g - 1
                                               else shootCooldown g)\<rparr>"
  by (auto simp: playerFire_def Let_def)

lemma bulletsLoop_no_enemies:
  "enemies g = [] \<Longrightarrow>
     bulletsLoop bs acc g r = (g\<lparr>bullets := acc @ filter bulletInBounds (map moveBullet bs)\<rparr>, r)"
  by (induction bs arbitrary: acc) (simp_all add: Let_def)

lemma applyHit_length:
  "i < length (enemies g) \<Longrightarrow> length (enemies (fst (applyHit i g r))) \<le> length (enemies g)"
  using applyHit_survives[of g i r] applyHit_kills[of g i r]
  by (cases "1 < hp (enemies g ! i)") auto

lemma bulletsLoop_length:
  "length (enemies (fst (bulletsLoop bs acc g r))) \<le> length (enemies g)"
proof (induction bs arbitrary: acc g r)
  case Nil
  show ?case by simp
next
  case (Cons b bs)
  show ?case
  proof (cases "findHit b (enemies g) 0")
    case None
    then show ?thesis using Cons.IH by (simp add: Let_def)
  next
    case (Some i)
    from findHit_Some[OF Some] have i: "i < length (enemies g)" by simp
    obtain g1 r1 where a: "applyHit i g r = (g1, r1)" by (cases "applyHit i g r")
    have "length (enemies g1) \<le> length (enemies g)" using applyHit_length[OF i, of r] a by simp
    moreover have "length (enemies (fst (bulletsLoop bs acc g1 r1))) \<le> length (enemies g1)"
      using Cons.IH by simp
    ultimately show ?thesis using Some a by simp
  qed
qed

lemma playerFire_shape: "\<exists>B C. playerFire inp g = g\<lparr>bullets := B, shootCooldown := C\<rparr>"
proof -
  have "playerFire inp g = g\<lparr>bullets := bullets (playerFire inp g),
                        shootCooldown := shootCooldown (playerFire inp g)\<rparr>"
    by (simp add: playerFire_def Let_def)
  then show ?thesis by blast
qed

lemma checkStageClear_shape:
  "\<exists>T K. checkStageClear g = g\<lparr>gameState := gameState (checkStageClear g),
                                 stageClearTimer := T, stageClearKeyReleased := K\<rparr>"
proof -
  have "checkStageClear g = g\<lparr>gameState := gameState (checkStageClear g),
          stageClearTimer := stageClearTimer (checkStageClear g),
          stageClearKeyReleased := stageClearKeyReleased (checkStageClear g)\<rparr>"
    by (simp add: checkStageClear_def)
  then show ?thesis by blast
qed

lemma enemyBulletHitsPlayer_cong:
  "playerX g = playerX g' \<Longrightarrow> playerY g = playerY g' \<Longrightarrow>
     enemyBulletHitsPlayer g eb = enemyBulletHitsPlayer g' eb"
  by (simp add: enemyBulletHitsPlayer_def)

lemma playerHitsEnemy_cong:
  "playerX g = playerX g' \<Longrightarrow> playerY g = playerY g' \<Longrightarrow>
     playerHitsEnemy g e = playerHitsEnemy g' e"
  by (simp add: playerHitsEnemy_def)

lemma playingResolve_shape:
  fixes g4 :: Game
  defines "g5 \<equiv> checkStageClear g4"
  defines "hitEB \<equiv> \<exists>eb \<in> set (enemyBullets g4). enemyBulletHitsPlayer g4 (moveEnemyBullet eb)"
  shows "\<exists>B C E S new1 EB new2 new3 r'.
     playingResolve inp g4 r4 =
       (g5\<lparr>bullets := B, shootCooldown := C, enemies := E, score := S, enemyBullets := EB,
           particles := particles g4 @ new1 @ new2 @ new3,
           gameState := (if hitEB \<or> (\<exists>e \<in> set E. playerHitsEnemy g4 e)
                         then GameStatePlayerExplosion else gameState g5),
           playerExplosionTimer := (if hitEB \<or> (\<exists>e \<in> set E. playerHitsEnemy g4 e)
                                    then 0 else playerExplosionTimer g4),
           highScore := (if (\<exists>e \<in> set E. playerHitsEnemy g4 e) \<and> S > highScore g4
                         then S else highScore g4)\<rparr>, r')
     \<and> (\<forall>q \<in> set (new1 @ new2 @ new3). particleAlive q)
     \<and> ((\<forall>e \<in> set (enemies g4). 0 < hp e) \<longrightarrow> (\<forall>e \<in> set E. 0 < hp e))
     \<and> length E \<le> length (enemies g4)
     \<and> (enemies g4 = [] \<longrightarrow> S = score g4 \<and> new1 = [])
     \<and> (if hitEB then length new2 = 20 else new2 = [])
     \<and> (if \<exists>e \<in> set E. playerHitsEnemy g4 e then length new3 = 20 else new3 = [])"
proof -
  obtain T K where g5: "g5 = g4\<lparr>gameState := gameState g5, stageClearTimer := T,
                                  stageClearKeyReleased := K\<rparr>"
    unfolding g5_def using checkStageClear_shape by blast
  obtain B6 C6 where pf: "playerFire inp g5 = g5\<lparr>bullets := B6, shootCooldown := C6\<rparr>"
    using playerFire_shape by blast
  define g6 where "g6 = g5\<lparr>bullets := B6, shootCooldown := C6\<rparr>"
  have e5: "enemies g5 = enemies g4" "particles g5 = particles g4" "score g5 = score g4"
    "playerX g5 = playerX g4" "playerY g5 = playerY g4" "enemyBullets g5 = enemyBullets g4"
    "highScore g5 = highScore g4" "playerExplosionTimer g5 = playerExplosionTimer g4"
    by (subst g5, simp)+
  have e6: "enemies g6 = enemies g4" "particles g6 = particles g4" "score g6 = score g4"
    "playerX g6 = playerX g4" "playerY g6 = playerY g4" "enemyBullets g6 = enemyBullets g4"
    "highScore g6 = highScore g4" "playerExplosionTimer g6 = playerExplosionTimer g4"
    "gameState g6 = gameState g5"
    using e5 by (simp_all add: g6_def)
  obtain B E S new1 r7 where
    bl: "bulletsLoop (bullets g6) [] g6 r4 =
            (g6\<lparr>bullets := B, enemies := E, score := S, particles := particles g6 @ new1\<rparr>, r7)"
        "\<forall>q \<in> set new1. particleAlive q"
        "(\<forall>e \<in> set (enemies g6). 0 < hp e) \<longrightarrow> (\<forall>e \<in> set E. 0 < hp e)"
    using bulletsLoop_shape by blast
  define g7 where "g7 = g6\<lparr>bullets := B, enemies := E, score := S, particles := particles g6 @ new1\<rparr>"
  have lenE: "length E \<le> length (enemies g4)"
    using bulletsLoop_length[of "bullets g6" "[]" g6 r4] bl(1) e6 by simp
  have noen: "S = score g4 \<and> new1 = []" if "enemies g4 = []"
  proof -
    have "bulletsLoop (bullets g6) [] g6 r4
           = (g6\<lparr>bullets := [] @ filter bulletInBounds (map moveBullet (bullets g6))\<rparr>, r4)"
      using bulletsLoop_no_enemies[of g6] that e6 by simp
    with bl(1) have eq: "g6\<lparr>bullets := B, enemies := E, score := S, particles := particles g6 @ new1\<rparr>
        = g6\<lparr>bullets := [] @ filter bulletInBounds (map moveBullet (bullets g6))\<rparr>" by simp
    from arg_cong[OF eq, of score] arg_cong[OF eq, of particles] show ?thesis
      using e6 by simp
  qed
  have p7: "playerX g7 = playerX g4" "playerY g7 = playerY g4" "enemyBullets g7 = enemyBullets g4"
    using e6 by (simp_all add: g7_def)
  have hit7: "(\<exists>eb \<in> set (enemyBullets g7). enemyBulletHitsPlayer g7 (moveEnemyBullet eb)) = hitEB"
    unfolding hitEB_def p7(3) using enemyBulletHitsPlayer_cong[OF p7(1,2)] by simp
  obtain EB new2' r8' where
    ebl: "enemyBulletsLoop (enemyBullets g7) [] g7 r7 =
     (if hitEB
      then (g7\<lparr>enemyBullets := EB, particles := particles g7 @ new2',
              gameState := GameStatePlayerExplosion, playerExplosionTimer := 0\<rparr>, r8')
      else (g7\<lparr>enemyBullets := EB\<rparr>, r7))"
     "hitEB \<longrightarrow> length new2' = 20"
     "\<forall>q \<in> set new2'. explosionParticleAt (playerX g7 + 10) (playerY g7 + 12) q"
    using enemyBulletsLoop_shape[of "enemyBullets g7" "[]" g7 r7] unfolding hit7 by blast
  define new2 where "new2 = (if hitEB then new2' else [])"
  define r8 where "r8 = (if hitEB then r8' else r7)"
  define g8 where "g8 = g7\<lparr>enemyBullets := EB, particles := particles g7 @ new2,
              gameState := (if hitEB then GameStatePlayerExplosion else gameState g7),
              playerExplosionTimer := (if hitEB then 0 else playerExplosionTimer g7)\<rparr>"
  have ebl': "enemyBulletsLoop (enemyBullets g7) [] g7 r7 = (g8, r8)"
    using ebl(1) by (simp add: g8_def new2_def r8_def)
  have alive2: "\<forall>q \<in> set new2. particleAlive q"
    using ebl(3) all_explosion_alive by (auto simp: new2_def)
  have p8: "playerX g8 = playerX g4" "playerY g8 = playerY g4" "enemies g8 = E"
    "score g8 = S" "highScore g8 = highScore g4"
    using e6 by (simp_all add: g8_def g7_def)
  have hit8: "(\<exists>e \<in> set (enemies g8). playerHitsEnemy g8 e) = (\<exists>e \<in> set E. playerHitsEnemy g4 e)"
    unfolding p8(3) using playerHitsEnemy_cong[OF p8(1,2)] by simp
  let ?hitE = "\<exists>e \<in> set E. playerHitsEnemy g4 e"
  obtain new3' r9' where
    cl: "collisionLoop (enemies g8) g8 r8 =
     (if ?hitE
      then (g8\<lparr>highScore := (if score g8 > highScore g8 then score g8 else highScore g8),
              particles := particles g8 @ new3',
              gameState := GameStatePlayerExplosion, playerExplosionTimer := 0\<rparr>, r9')
      else (g8, r8))"
     "?hitE \<longrightarrow> length new3' = 20"
     "\<forall>q \<in> set new3'. explosionParticleAt (playerX g8 + 10) (playerY g8 + 12) q"
    using collisionLoop_shape[of "enemies g8" g8 r8] unfolding hit8 by blast
  define new3 where "new3 = (if ?hitE then new3' else [])"
  define r9 where "r9 = (if ?hitE then r9' else r8)"
  have alive3: "\<forall>q \<in> set new3. particleAlive q"
    using cl(3) all_explosion_alive by (auto simp: new3_def)
  have res: "playingResolve inp g4 r4 = collisionLoop (enemies g8) g8 r8"
    using bl(1) ebl' pf
    by (simp add: playingResolve_def Let_def updateBullets_def updateEnemyBullets_def
        playerEnemyCollision_def g6_def[symmetric] g5_def[symmetric] g7_def[symmetric])
  have final: "playingResolve inp g4 r4 =
       (g5\<lparr>bullets := B, shootCooldown := C6, enemies := E, score := S,
           enemyBullets := EB,
           particles := particles g4 @ new1 @ new2 @ new3,
           gameState := (if hitEB \<or> ?hitE then GameStatePlayerExplosion else gameState g5),
           playerExplosionTimer := (if hitEB \<or> ?hitE then 0 else playerExplosionTimer g4),
           highScore := (if ?hitE \<and> S > highScore g4 then S else highScore g4)\<rparr>, r9)"
    unfolding res cl(1)
    by (auto simp: new3_def r9_def p8 g8_def g7_def g6_def e5)
  have "\<forall>q \<in> set (new1 @ new2 @ new3). particleAlive q"
    using bl(2) alive2 alive3 by auto
  moreover have "(\<forall>e \<in> set (enemies g4). 0 < hp e) \<longrightarrow> (\<forall>e \<in> set E. 0 < hp e)"
    using bl(3) e6 by simp
  moreover have "if hitEB then length new2 = 20 else new2 = []"
    using ebl(2) by (simp add: new2_def)
  moreover have "if ?hitE then length new3 = 20 else new3 = []"
    using cl(2) by (simp add: new3_def)
  ultimately show ?thesis using final lenE noen by blast
qed

subsection \<open>One frame\<close>

lemma Update_playing_eq:
  "gameState g = GameStatePlaying \<Longrightarrow>
     Update inp stages g r =
       updatePlaying inp (g\<lparr>stars := fst (updateStars (stars g) r),
                             particles := updateParticles (particles g)\<rparr>)
                         (snd (updateStars (stars g) r))"
  by (simp add: Update_def Let_def consts_defs split: prod.splits)

lemma updatePlaying_shape:
  assumes "updatePlaying inp g r = Inr (g', r')"
  shows "waves g' = waves g \<and> currentStage g' = currentStage g \<and> stars g' = stars g
       \<and> waveTimer g' = waveTimer g + 1
       \<and> currentSpawn g' = (if currentSpawn g < length (waves g)
                                \<and> totalDelay (waves g) (currentSpawn g) \<le> waveTimer g
                             then currentSpawn g + 1 else currentSpawn g)
       \<and> (\<exists>new. particles g' = particles g @ new \<and> (\<forall>q \<in> set new. particleAlive q))
       \<and> ((\<forall>e \<in> set (enemies g). 0 < hp e) \<longrightarrow> (\<forall>e \<in> set (enemies g'). 0 < hp e))"
proof -
  from assms obtain g4 r4 where adv: "playingAdvance inp g r = Inr (g4, r4)"
    and res: "playingResolve inp g4 r4 = (g', r')"
    by (auto simp: updatePlaying_def split: sum.splits)
  from playingAdvance_shape[OF adv] obtain X Y E4 EBnew Pnew where
    g4: "g4 = g\<lparr>playerX := X, playerY := Y, enemies := E4,
                  currentSpawn := (if currentSpawn g < length (waves g)
                                      \<and> totalDelay (waves g) (currentSpawn g) \<le> waveTimer g
                                   then currentSpawn g + 1 else currentSpawn g),
                  waveTimer := waveTimer g + 1,
                  enemyBullets := enemyBullets g @ EBnew,
                  particles := particles g @ Pnew\<rparr>"
    and al4: "\<forall>q \<in> set Pnew. particleAlive q"
    and inv4: "(\<forall>e \<in> set (enemies g). 0 < hp e) \<longrightarrow> (\<forall>e \<in> set E4. 0 < hp e)"
    by blast
  obtain T K where g5: "checkStageClear g4 = g4\<lparr>gameState := gameState (checkStageClear g4),
                                 stageClearTimer := T, stageClearKeyReleased := K\<rparr>"
    using checkStageClear_shape by blast
  define hitEB where "hitEB \<longleftrightarrow>
     (\<exists>eb \<in> set (enemyBullets g4). enemyBulletHitsPlayer g4 (moveEnemyBullet eb))"
  from playingResolve_shape[of inp g4 r4, folded hitEB_def]
  obtain B C E S new1 EB new2 new3 r9 where
    pr: "playingResolve inp g4 r4 =
       ((checkStageClear g4)\<lparr>bullets := B, shootCooldown := C, enemies := E, score := S,
           enemyBullets := EB,
           particles := particles g4 @ new1 @ new2 @ new3,
           gameState := (if hitEB \<or> (\<exists>e \<in> set E. playerHitsEnemy g4 e)
                         then GameStatePlayerExplosion else gameState (checkStageClear g4)),
           playerExplosionTimer := (if hitEB \<or> (\<exists>e \<in> set E. playerHitsEnemy g4 e)
                                    then 0 else playerExplosionTimer g4),
           highScore := (if (\<exists>e \<in> set E. playerHitsEnemy g4 e) \<and> S > highScore g4
                         then S else highScore g4)\<rparr>, r9)"
    and al: "\<forall>q \<in> set (new1 @ new2 @ new3). particleAlive q"
    and inv: "(\<forall>e \<in> set (enemies g4). 0 < hp e) \<longrightarrow> (\<forall>e \<in> set E. 0 < hp e)"
    by (elim exE conjE) (rule that; assumption)
  define GS where "GS = (if hitEB \<or> (\<exists>e \<in> set E. playerHitsEnemy g4 e)
                         then GameStatePlayerExplosion else gameState (checkStageClear g4))"
  define PT where "PT = (if hitEB \<or> (\<exists>e \<in> set E. playerHitsEnemy g4 e)
                                    then 0 else playerExplosionTimer g4)"
  define H where "H = (if (\<exists>e \<in> set E. playerHitsEnemy g4 e) \<and> S > highScore g4
                         then S else highScore g4)"
  have g': "g' = (checkStageClear g4)\<lparr>bullets := B, shootCooldown := C, enemies := E, score := S,
           enemyBullets := EB, particles := particles g4 @ new1 @ new2 @ new3,
           gameState := GS, playerExplosionTimer := PT, highScore := H\<rparr>"
    using pr res unfolding GS_def PT_def H_def by simp
  have e4: "enemies g4 = E4" "particles g4 = particles g @ Pnew" "waves g4 = waves g"
    "currentStage g4 = currentStage g" "stars g4 = stars g" "waveTimer g4 = waveTimer g + 1"
    "currentSpawn g4 = (if currentSpawn g < length (waves g)
                                \<and> totalDelay (waves g) (currentSpawn g) \<le> waveTimer g
                             then currentSpawn g + 1 else currentSpawn g)"
    by (simp_all add: g4)
  have c5: "waves (checkStageClear g4) = waves g4"
    "currentStage (checkStageClear g4) = currentStage g4"
    "stars (checkStageClear g4) = stars g4"
    "waveTimer (checkStageClear g4) = waveTimer g4"
    "currentSpawn (checkStageClear g4) = currentSpawn g4"
    by (simp_all add: checkStageClear_def)
  have f: "waves g' = waves g" "currentStage g' = currentStage g" "stars g' = stars g"
    "waveTimer g' = waveTimer g + 1"
    "currentSpawn g' = (if currentSpawn g < length (waves g)
                                \<and> totalDelay (waves g) (currentSpawn g) \<le> waveTimer g
                             then currentSpawn g + 1 else currentSpawn g)"
    "enemies g' = E" "particles g' = particles g @ (Pnew @ new1 @ new2 @ new3)"
    unfolding g' by (simp_all add: c5 e4)
  have "\<forall>q \<in> set (Pnew @ new1 @ new2 @ new3). particleAlive q" using al4 al by auto
  then have "\<exists>new. particles g' = particles g @ new \<and> (\<forall>q \<in> set new. particleAlive q)"
    using f(7) by blast
  moreover have "(\<forall>e \<in> set (enemies g). 0 < hp e) \<longrightarrow> (\<forall>e \<in> set (enemies g'). 0 < hp e)"
    using inv4 inv e4 f(6) by simp
  ultimately show ?thesis using f by simp
qed

lemma updateParticles_alive: "\<forall>q \<in> set (updateParticles ps). particleAlive q"
  by (simp add: updateParticles_filter)

lemma NewGame_fresh:
  assumes "NewGame a stages r = Inr (g, r')"
  shows "enemies g = [] \<and> bullets g = [] \<and> enemyBullets g = [] \<and> particles g = []
       \<and> score g = 0 \<and> highScore g = 0 \<and> currentStage g = 0 \<and> currentSpawn g = 0
       \<and> waveTimer g = 0 \<and> gameState g = GameStateTitle \<and> stages \<noteq> []
       \<and> waves g = Waves (hd stages)"
  using assms by (auto simp: NewGame_def Let_def split: prod.splits if_splits list.splits)

lemma advanceStage_enemies:
  "enemies (advanceStage stages g) = [] \<or> enemies (advanceStage stages g) = enemies g"
  by (simp add: advanceStage_def Let_def recordHighScore_def)

lemma advanceStage_particles: "particles (advanceStage stages g) = particles g"
  by (simp add: advanceStage_def Let_def recordHighScore_def)

lemma updateStageClear_enemies:
  "enemies (updateStageClear inp stages g) = [] \<or> enemies (updateStageClear inp stages g) = enemies g"
  by (simp add: updateStageClear_def advanceStage_def Let_def recordHighScore_def)

lemma updateStageClear_particles: "particles (updateStageClear inp stages g) = particles g"
  by (simp add: updateStageClear_def Let_def advanceStage_particles)

lemma moveEnemyGameOver_hp: "hp (moveEnemyGameOver e) = hp e"
  by (simp add: moveEnemyGameOver_def moveSpecialGameOver_def Let_def)

lemma Update_invariants:
  assumes up: "Update inp stages g r = Inr (g', r')"
  shows "(\<forall>q \<in> set (particles g'). particleAlive q)
       \<and> ((\<forall>e \<in> set (enemies g). 0 < hp e) \<longrightarrow> (\<forall>e \<in> set (enemies g'). 0 < hp e))"
proof -
  define g1 where "g1 = g\<lparr>stars := fst (updateStars (stars g) r),
                           particles := updateParticles (particles g)\<rparr>"
  define r1 where "r1 = snd (updateStars (stars g) r)"
  have p1: "\<forall>q \<in> set (particles g1). particleAlive q"
    by (simp add: g1_def updateParticles_alive)
  have e1: "enemies g1 = enemies g" "gameState g1 = gameState g" by (simp_all add: g1_def)
  have U: "Update inp stages g r =
      (if gameState g = GameStateTitle then
           Inr ((if KeySpace inp then g1\<lparr>gameState := GameStatePlaying\<rparr> else g1), r1)
         else if gameState g = GameStatePlaying then updatePlaying inp g1 r1
         else if gameState g = GameStatePlayerExplosion then Inr (updatePlayerExplosion g1, r1)
         else if gameState g = GameStateStageClear then Inr (updateStageClear inp stages g1, r1)
         else if gameState g = GameStateGameOver then updateGameOver inp stages g1 r1
         else Inr (g1, r1))"
    by (simp add: Update_def Let_def g1_def r1_def split: prod.splits)
  consider (title) "gameState g = GameStateTitle"
    | (playing) "gameState g = GameStatePlaying"
    | (explosion) "gameState g = GameStatePlayerExplosion"
    | (clear) "gameState g = GameStateStageClear"
    | (over) "gameState g = GameStateGameOver"
    | (other) "gameState g \<noteq> GameStateTitle" "gameState g \<noteq> GameStatePlaying"
        "gameState g \<noteq> GameStatePlayerExplosion" "gameState g \<noteq> GameStateStageClear"
        "gameState g \<noteq> GameStateGameOver"
    by blast
  then show ?thesis
  proof cases
    case title
    then have "particles g' = particles g1" "enemies g' = enemies g"
      using up U e1 by (auto split: if_splits)
    then show ?thesis using p1 by simp
  next
    case playing
    then have "updatePlaying inp g1 r1 = Inr (g', r')"
      using up U by (simp add: consts_defs)
    from updatePlaying_shape[OF this] p1 e1 show ?thesis by auto
  next
    case explosion
    then have "g' = updatePlayerExplosion g1" using up U by (simp add: consts_defs)
    then have "particles g' = particles g1" "enemies g' = enemies g"
      using e1 by (simp_all add: updatePlayerExplosion_def Let_def)
    then show ?thesis using p1 by simp
  next
    case clear
    then have "g' = updateStageClear inp stages g1" using up U by (simp add: consts_defs)
    then show ?thesis
      using p1 e1 updateStageClear_particles[of inp stages g1]
        updateStageClear_enemies[of inp stages g1] by auto
  next
    case over
    then have go: "updateGameOver inp stages g1 r1 = Inr (g', r')"
      using up U by (simp add: consts_defs)
    show ?thesis
    proof (cases "KeyR inp")
      case True
      with go obtain g2 where "NewGame (audioInitOk inp) stages r1 = Inr (g2, r')"
        and "g' = g2\<lparr>gameState := GameStatePlaying\<rparr>"
        by (auto simp: updateGameOver_def Let_def split: sum.splits)
      with NewGame_fresh[of "audioInitOk inp" stages r1 g2 r'] show ?thesis by simp
    next
      case False
      with go have "g' = removeOffscreen (g1\<lparr>enemies := map moveEnemyGameOver (enemies g1)\<rparr>)"
        by (simp add: updateGameOver_def Let_def)
      then have "particles g' = particles g1"
        "set (enemies g') \<subseteq> moveEnemyGameOver ` set (enemies g)"
        using e1 by (auto simp: removeOffscreen_def)
      then show ?thesis using p1 moveEnemyGameOver_hp by auto
    qed
  next
    case other
    then have "g' = g1" using up U by simp
    then show ?thesis using p1 e1 by simp
  qed
qed

subsection \<open>The wave scheduler\<close>




lemma Update_playing_cursor:
  assumes "gameState g = GameStatePlaying" and "Update inp stages g r = Inr (g', r')"
  shows "waves g' = waves g \<and> waveTimer g' = waveTimer g + 1
       \<and> currentSpawn g' = (if currentSpawn g < length (waves g)
                                \<and> totalDelay (waves g) (currentSpawn g) \<le> waveTimer g
                             then currentSpawn g + 1 else currentSpawn g)
       \<and> currentStage g' = currentStage g"
  using updatePlaying_shape[of inp "g\<lparr>stars := fst (updateStars (stars g) r),
                             particles := updateParticles (particles g)\<rparr>"
                         "snd (updateStars (stars g) r)" g' r']
    assms Update_playing_eq[of g inp stages r]
  by simp

subsection \<open>One bullet\<close>

lemma bulletsLoop_single_hit:
  assumes "findHit b (enemies g) 0 = Some i"
  shows "bulletsLoop [b] acc g r
           = ((fst (applyHit i g r))\<lparr>bullets := acc\<rparr>, snd (applyHit i g r))"
  using assms by (simp add: Let_def split: prod.splits)

lemma bulletsLoop_single_miss:
  assumes "findHit b (enemies g) 0 = None"
  shows "bulletsLoop [b] acc g r
           = (g\<lparr>bullets := (if bulletInBounds (moveBullet b) then acc @ [moveBullet b] else acc)\<rparr>, r)"
  using assms by (simp add: Let_def)

lemma updateBullets_hp:
  "(\<forall>e \<in> set (enemies g). 0 < hp e) \<Longrightarrow> \<forall>e \<in> set (enemies (fst (updateBullets g r))). 0 < hp e"
proof -
  assume inv: "\<forall>e \<in> set (enemies g). 0 < hp e"
  obtain B E S new r' where
    "bulletsLoop (bullets g) [] g r =
            (g\<lparr>bullets := B, enemies := E, score := S, particles := particles g @ new\<rparr>, r')"
    "(\<forall>e \<in> set (enemies g). 0 < hp e) \<longrightarrow> (\<forall>e \<in> set E. 0 < hp e)"
    using bulletsLoop_shape[of "bullets g" "[]" g r] by blast
  then show ?thesis using inv by (simp add: updateBullets_def)
qed

subsection \<open>Restart\<close>

lemma NewGame_total:
  "stages \<noteq> [] \<Longrightarrow> \<exists>g0 r'. NewGame True stages r = Inr (g0, r')"
  by (cases stages) (auto simp: NewGame_def Let_def split: prod.splits)

lemma Update_restart:
  assumes "gameState g = GameStateGameOver" "KeyR inp" "audioInitOk inp" "stages \<noteq> []"
  shows "\<exists>g0 r'. NewGame True stages (snd (updateStars (stars g) r)) = Inr (g0, r')
               \<and> Update inp stages g r = Inr (g0\<lparr>gameState := GameStatePlaying\<rparr>, r')"
proof -
  obtain g0 r' where n: "NewGame True stages (snd (updateStars (stars g) r)) = Inr (g0, r')"
    using NewGame_total[OF assms(4)] by blast
  have "Update inp stages g r = Inr (g0\<lparr>gameState := GameStatePlaying\<rparr>, r')"
    using assms(1,2,3) n
    by (simp add: Update_def updateGameOver_def Let_def split_beta consts_defs)
  then show ?thesis using n by blast
qed

lemma Update_restart_fields:
  assumes "gameState g = GameStateGameOver" "KeyR inp" "audioInitOk inp" "stages \<noteq> []"
  shows "\<exists>g' r'. Update inp stages g r = Inr (g', r')
           \<and> gameState g' = GameStatePlaying \<and> score g' = 0 \<and> highScore g' = 0
           \<and> enemies g' = [] \<and> bullets g' = [] \<and> enemyBullets g' = [] \<and> particles g' = []
           \<and> currentStage g' = 0 \<and> currentSpawn g' = 0 \<and> waveTimer g' = 0
           \<and> waves g' = Waves (hd stages)"
proof -
  from Update_restart[OF assms, of r] obtain g0 r' where
    n: "NewGame True stages (snd (updateStars (stars g) r)) = Inr (g0, r')"
    and u: "Update inp stages g r = Inr (g0\<lparr>gameState := GameStatePlaying\<rparr>, r')"
    by blast
  from NewGame_fresh[OF n] u show ?thesis by simp
qed

subsection \<open>The aimed shot\<close>

lemma aimedVelocity_fault:
  "aimedVelocity px py ex ey = Inl DivisionByZero \<longleftrightarrow> px = ex \<and> py = ey"
proof -
  have "sqrt ((px - ex) * (px - ex) + (py - ey) * (py - ey)) = 0 \<longleftrightarrow> px = ex \<and> py = ey"
    by simp
  then show ?thesis by (simp add: aimedVelocity_def Let_def)
qed

lemma aimedVelocity_defined:
  "px \<noteq> ex \<or> py \<noteq> ey \<Longrightarrow>
     \<exists>vx vy. aimedVelocity px py ex ey = Inr (vx, vy) \<and> vx\<^sup>2 + vy\<^sup>2 = 16"
proof -
  assume ne: "px \<noteq> ex \<or> py \<noteq> ey"
  define dx where "dx = px - ex"
  define dy where "dy = py - ey"
  define d where "d = sqrt (dx * dx + dy * dy)"
  have nz: "dx \<noteq> 0 \<or> dy \<noteq> 0" using ne by (simp add: dx_def dy_def)
  then have pos: "0 < dx * dx + dy * dy" by (simp add: sum_squares_gt_zero_iff)
  then have d0: "d \<noteq> 0" "d * d = dx * dx + dy * dy"
    using nz by (simp_all add: d_def)
  have "(dx / d * 4)\<^sup>2 + (dy / d * 4)\<^sup>2 = 16 * ((dx * dx + dy * dy) / (d * d))"
    by (simp add: power2_eq_square add_divide_distrib)
  also have "\<dots> = 16" using d0 nz by simp
  finally have "(dx / d * 4)\<^sup>2 + (dy / d * 4)\<^sup>2 = 16" .
  moreover have "aimedVelocity px py ex ey = Inr (dx / d * 4, dy / d * 4)"
    using d0(1) by (simp add: aimedVelocity_def Let_def dx_def dy_def d_def)
  ultimately show ?thesis by blast
qed

subsection \<open>A Playing frame without enemies\<close>

lemma movePlayer_fields:
  "enemies (movePlayer inp g) = enemies g" "waves (movePlayer inp g) = waves g"
  "currentSpawn (movePlayer inp g) = currentSpawn g" "waveTimer (movePlayer inp g) = waveTimer g"
  "enemyBullets (movePlayer inp g) = enemyBullets g" "particles (movePlayer inp g) = particles g"
  "gameState (movePlayer inp g) = gameState g" "score (movePlayer inp g) = score g"
  "highScore (movePlayer inp g) = highScore g" "currentStage (movePlayer inp g) = currentStage g"
  "stageClearTimer (movePlayer inp g) = stageClearTimer g"
  "stageClearKeyReleased (movePlayer inp g) = stageClearKeyReleased g"
  "playerExplosionTimer (movePlayer inp g) = playerExplosionTimer g"
  by (simp_all add: movePlayer_def Let_def)

lemma playingAdvance_idle:
  assumes "enemies g = []"
    and "\<not> (currentSpawn g < length (waves g)
            \<and> totalDelay (waves g) (currentSpawn g) \<le> waveTimer g)"
  shows "playingAdvance inp g r = Inr ((movePlayer inp g)\<lparr>waveTimer := waveTimer g + 1\<rparr>, r)"
proof -
  define g1 where "g1 = movePlayer inp g"
  have s: "spawnEnemies g1 r = (g1\<lparr>waveTimer := waveTimer g + 1\<rparr>, r)"
    using assms(2) by (auto simp: spawnEnemies_eq g1_def movePlayer_fields)
  define g2 where "g2 = g1\<lparr>waveTimer := waveTimer g + 1\<rparr>"
  have e2: "enemies g2 = []" using assms(1) by (simp add: g2_def g1_def movePlayer_fields)
  have u: "updateEnemies g2 r = Inr (g2, r)"
    using e2 by (simp add: updateEnemies_def)
  have ro: "removeOffscreen g2 = g2"
    using e2 by (simp add: removeOffscreen_def)
  show ?thesis
    using s u ro by (simp add: playingAdvance_def g1_def[symmetric] g2_def[symmetric])
qed

lemma playingResolve_no_enemies:
  assumes en: "enemies g4 = []"
  shows "\<exists>g' r' new.
     playingResolve inp g4 r4 = (g', r')
     \<and> gameState g' =
         (if \<exists>eb \<in> set (enemyBullets g4). enemyBulletHitsPlayer g4 (moveEnemyBullet eb)
          then GameStatePlayerExplosion
          else if length (waves g4) \<le> currentSpawn g4 then GameStateStageClear
          else gameState g4)
     \<and> stageClearTimer g' = (if length (waves g4) \<le> currentSpawn g4 then 0
                              else stageClearTimer g4)
     \<and> stageClearKeyReleased g' = (if length (waves g4) \<le> currentSpawn g4 then False
                                    else stageClearKeyReleased g4)
     \<and> highScore g' = highScore g4 \<and> score g' = score g4 \<and> enemies g' = []
     \<and> currentStage g' = currentStage g4 \<and> waves g' = waves g4
     \<and> currentSpawn g' = currentSpawn g4 \<and> waveTimer g' = waveTimer g4
     \<and> particles g' = particles g4 @ new
     \<and> (if \<exists>eb \<in> set (enemyBullets g4). enemyBulletHitsPlayer g4 (moveEnemyBullet eb)
         then length new = 20 else new = [])
     \<and> (\<forall>q \<in> set new. explosionParticleAt (playerX g4 + 10) (playerY g4 + 12) q)"
proof -
  define hitEB where "hitEB \<longleftrightarrow>
     (\<exists>eb \<in> set (enemyBullets g4). enemyBulletHitsPlayer g4 (moveEnemyBullet eb))"
  define g5 where "g5 = checkStageClear g4"
  obtain B6 C6 where pf: "playerFire inp g5 = g5\<lparr>bullets := B6, shootCooldown := C6\<rparr>"
    using playerFire_shape by blast
  define g6 where "g6 = g5\<lparr>bullets := B6, shootCooldown := C6\<rparr>"
  have e5: "enemies g5 = []" "playerX g5 = playerX g4" "playerY g5 = playerY g4"
    "enemyBullets g5 = enemyBullets g4" "particles g5 = particles g4"
    "highScore g5 = highScore g4" "score g5 = score g4" "currentStage g5 = currentStage g4"
    "waves g5 = waves g4" "currentSpawn g5 = currentSpawn g4" "waveTimer g5 = waveTimer g4"
    "gameState g5 = (if length (waves g4) \<le> currentSpawn g4 then GameStateStageClear
                     else gameState g4)"
    "stageClearTimer g5 = (if length (waves g4) \<le> currentSpawn g4 then 0
                              else stageClearTimer g4)"
    "stageClearKeyReleased g5 = (if length (waves g4) \<le> currentSpawn g4 then False
                                    else stageClearKeyReleased g4)"
    using en by (simp_all add: g5_def checkStageClear_def)
  have e6: "enemies g6 = []" by (simp add: g6_def e5)
  define g7 where "g7 = g6\<lparr>bullets := [] @ filter bulletInBounds (map moveBullet (bullets g6))\<rparr>"
  have ub: "updateBullets g6 r4 = (g7, r4)"
    using bulletsLoop_no_enemies[OF e6, of "bullets g6" "[]" r4]
    by (simp add: updateBullets_def g7_def)
  have p7: "playerX g7 = playerX g4" "playerY g7 = playerY g4"
    "enemyBullets g7 = enemyBullets g4" "enemies g7 = []"
    by (simp_all add: g7_def g6_def e5)
  have hit7: "(\<exists>eb \<in> set (enemyBullets g7). enemyBulletHitsPlayer g7 (moveEnemyBullet eb)) = hitEB"
    unfolding hitEB_def p7(3) using enemyBulletHitsPlayer_cong[OF p7(1,2)] by simp
  obtain EB new2 r8 where
    ebl: "enemyBulletsLoop (enemyBullets g7) [] g7 r4 =
     (if hitEB
      then (g7\<lparr>enemyBullets := EB, particles := particles g7 @ new2,
              gameState := GameStatePlayerExplosion, playerExplosionTimer := 0\<rparr>, r8)
      else (g7\<lparr>enemyBullets := EB\<rparr>, r4))"
     "hitEB \<longrightarrow> length new2 = 20"
     "\<forall>q \<in> set new2. explosionParticleAt (playerX g7 + 10) (playerY g7 + 12) q"
    using enemyBulletsLoop_shape[of "enemyBullets g7" "[]" g7 r4] unfolding hit7 by blast
  define new where "new = (if hitEB then new2 else [])"
  define g8 where "g8 = (if hitEB
      then g7\<lparr>enemyBullets := EB, particles := particles g7 @ new2,
              gameState := GameStatePlayerExplosion, playerExplosionTimer := 0\<rparr>
      else g7\<lparr>enemyBullets := EB\<rparr>)"
  define r9 where "r9 = (if hitEB then r8 else r4)"
  have ueb: "updateEnemyBullets g7 r4 = (g8, r9)"
    using ebl(1) by (simp add: updateEnemyBullets_def g8_def r9_def)
  have e8: "enemies g8 = []" by (simp add: g8_def p7)
  have col: "playerEnemyCollision g8 r9 = (g8, r9)"
    by (simp add: playerEnemyCollision_def e8)
  have res: "playingResolve inp g4 r4 = (g8, r9)"
    using pf ub ueb col
    by (simp add: playingResolve_def Let_def g5_def[symmetric] g6_def[symmetric])
  have f8: "gameState g8 = (if hitEB then GameStatePlayerExplosion
          else if length (waves g4) \<le> currentSpawn g4 then GameStateStageClear
          else gameState g4)"
    "stageClearTimer g8 = (if length (waves g4) \<le> currentSpawn g4 then 0
                              else stageClearTimer g4)"
    "stageClearKeyReleased g8 = (if length (waves g4) \<le> currentSpawn g4 then False
                                    else stageClearKeyReleased g4)"
    "highScore g8 = highScore g4" "score g8 = score g4" "enemies g8 = []"
    "currentStage g8 = currentStage g4" "waves g8 = waves g4"
    "currentSpawn g8 = currentSpawn g4" "waveTimer g8 = waveTimer g4"
    "particles g8 = particles g4 @ new"
    by (simp_all add: g8_def g7_def g6_def e5 new_def)
  have n: "if hitEB then length new = 20 else new = []"
    "\<forall>q \<in> set new. explosionParticleAt (playerX g4 + 10) (playerY g4 + 12) q"
    using ebl(2,3) p7 by (auto simp: new_def)
  show ?thesis
    unfolding hitEB_def[symmetric] using res f8 n by blast
qed

lemma movePlayer_position_cong:
  "playerX g1 = playerX g \<Longrightarrow> playerY g1 = playerY g \<Longrightarrow>
     playerX (movePlayer inp g1) = playerX (movePlayer inp g)
     \<and> playerY (movePlayer inp g1) = playerY (movePlayer inp g)"
  by (simp add: movePlayer_def Let_def)

lemma Update_playing_no_enemies:
  assumes st: "gameState g = GameStatePlaying" and en: "enemies g = []"
    and nodue: "\<not> (currentSpawn g < length (waves g)
                   \<and> totalDelay (waves g) (currentSpawn g) \<le> waveTimer g)"
  shows "\<exists>g' r' new.
     Update inp stages g r = Inr (g', r')
     \<and> gameState g' =
         (if \<exists>eb \<in> set (enemyBullets g).
                enemyBulletHitsPlayer (movePlayer inp g) (moveEnemyBullet eb)
          then GameStatePlayerExplosion
          else if length (waves g) \<le> currentSpawn g then GameStateStageClear
          else GameStatePlaying)
     \<and> stageClearTimer g' = (if length (waves g) \<le> currentSpawn g then 0
                              else stageClearTimer g)
     \<and> stageClearKeyReleased g' = (if length (waves g) \<le> currentSpawn g then False
                                    else stageClearKeyReleased g)
     \<and> highScore g' = highScore g \<and> score g' = score g \<and> enemies g' = []
     \<and> currentStage g' = currentStage g \<and> waves g' = waves g
     \<and> currentSpawn g' = currentSpawn g
     \<and> particles g' = updateParticles (particles g) @ new
     \<and> (if \<exists>eb \<in> set (enemyBullets g).
               enemyBulletHitsPlayer (movePlayer inp g) (moveEnemyBullet eb)
         then length new = 20 else new = [])"
proof -
  define g1 where "g1 = g\<lparr>stars := fst (updateStars (stars g) r),
                           particles := updateParticles (particles g)\<rparr>"
  define r1 where "r1 = snd (updateStars (stars g) r)"
  have f1: "enemies g1 = []" "waves g1 = waves g" "currentSpawn g1 = currentSpawn g"
    "waveTimer g1 = waveTimer g" "playerX g1 = playerX g" "playerY g1 = playerY g"
    "enemyBullets g1 = enemyBullets g" "particles g1 = updateParticles (particles g)"
    "gameState g1 = GameStatePlaying" "score g1 = score g" "highScore g1 = highScore g"
    "currentStage g1 = currentStage g" "stageClearTimer g1 = stageClearTimer g"
    "stageClearKeyReleased g1 = stageClearKeyReleased g"
    using en st by (simp_all add: g1_def)
  define g4 where "g4 = (movePlayer inp g1)\<lparr>waveTimer := waveTimer g1 + 1\<rparr>"
  have adv: "playingAdvance inp g1 r1 = Inr (g4, r1)"
    unfolding g4_def using playingAdvance_idle[of g1 inp r1] f1 nodue by simp
  have f4: "enemies g4 = []" "waves g4 = waves g" "currentSpawn g4 = currentSpawn g"
    "enemyBullets g4 = enemyBullets g" "particles g4 = updateParticles (particles g)"
    "gameState g4 = GameStatePlaying" "score g4 = score g" "highScore g4 = highScore g"
    "currentStage g4 = currentStage g" "stageClearTimer g4 = stageClearTimer g"
    "stageClearKeyReleased g4 = stageClearKeyReleased g"
    "playerX g4 = playerX (movePlayer inp g)" "playerY g4 = playerY (movePlayer inp g)"
    using movePlayer_position_cong[OF f1(5,6), of inp]
    by (simp_all add: g4_def movePlayer_fields f1)
  have hit: "(\<exists>eb \<in> set (enemyBullets g4). enemyBulletHitsPlayer g4 (moveEnemyBullet eb))
      = (\<exists>eb \<in> set (enemyBullets g).
                enemyBulletHitsPlayer (movePlayer inp g) (moveEnemyBullet eb))"
    unfolding f4(4) using enemyBulletHitsPlayer_cong[OF f4(12,13)] by simp
  from playingResolve_no_enemies[OF f4(1), of inp r1] obtain g' r' new where
    res: "playingResolve inp g4 r1 = (g', r')"
    and p: "gameState g' =
         (if \<exists>eb \<in> set (enemyBullets g4). enemyBulletHitsPlayer g4 (moveEnemyBullet eb)
          then GameStatePlayerExplosion
          else if length (waves g4) \<le> currentSpawn g4 then GameStateStageClear
          else gameState g4)"
     "stageClearTimer g' = (if length (waves g4) \<le> currentSpawn g4 then 0
                              else stageClearTimer g4)"
     "stageClearKeyReleased g' = (if length (waves g4) \<le> currentSpawn g4 then False
                                    else stageClearKeyReleased g4)"
     "highScore g' = highScore g4" "score g' = score g4" "enemies g' = []"
     "currentStage g' = currentStage g4" "waves g' = waves g4"
     "currentSpawn g' = currentSpawn g4"
     "particles g' = particles g4 @ new"
     "if \<exists>eb \<in> set (enemyBullets g4). enemyBulletHitsPlayer g4 (moveEnemyBullet eb)
         then length new = 20 else new = []"
    by (elim exE conjE) (rule that; assumption)
  have "Update inp stages g r = Inr (g', r')"
    using Update_playing_eq[OF st, of inp stages r] adv res
    by (simp add: updatePlaying_def g1_def[symmetric] r1_def[symmetric])
  moreover note q = p[unfolded hit, unfolded f4]
  ultimately show ?thesis using q by blast
qed

subsection \<open>The boss\<close>

lemma goRem_8: "goRem a 8 = 0 \<longleftrightarrow> a mod 8 = 0"
proof -
  have "\<bar>a\<bar> mod 8 = 0 \<longleftrightarrow> a mod 8 = 0" by presburger
  moreover have "a = 0 \<Longrightarrow> a mod 8 = 0" by simp
  ultimately show ?thesis by (auto simp: goRem_def sgn_if)
qed

lemma boss_ascent_step:
  assumes "enemyType e = EnemyTypeBoss" "bossState e = 0" "e_y e < 80"
  shows "enemyType (fst (moveEnemy e)) = EnemyTypeBoss"
    "bossState (fst (moveEnemy e)) = 0"
    "bossTimer (fst (moveEnemy e)) = bossTimer e + 1"
    "e_y (fst (moveEnemy e)) = e_y e + speed e"
    "speed (fst (moveEnemy e)) = speed e"
    "fst (snd (moveEnemy e)) = []"
  using assms by (simp_all add: moveEnemy_def moveBoss_def Let_def consts_defs)

lemma boss_step:
  assumes "enemyType e = EnemyTypeBoss" "bossState e \<in> {0, 1, 2, 3}"
    "bossState e = 0 \<longrightarrow> 80 \<le> e_y e"
  shows "enemyType (fst (moveEnemy e)) = EnemyTypeBoss"
    "e_y (fst (moveEnemy e)) = e_y e"
    "speed (fst (moveEnemy e)) = speed e"
    "bossTimer e + 1 > phaseLimit (bossState e) \<Longrightarrow>
       bossState (fst (moveEnemy e)) = (bossState e + 1) mod 4
       \<and> bossTimer (fst (moveEnemy e)) = 0"
    "bossTimer e + 1 \<le> phaseLimit (bossState e) \<Longrightarrow>
       bossState (fst (moveEnemy e)) = bossState e
       \<and> bossTimer (fst (moveEnemy e)) = bossTimer e + 1"
  using assms
  by (auto simp: moveEnemy_def moveBoss_def Let_def consts_defs phaseLimit_def
      split: prod.splits)

lemma moveEnemy_emits:
  "fst (snd (moveEnemy e)) =
     (if enemyType e = EnemyTypeBoss \<and> bossState e = 2
         \<and> (bossTimer e + 1) mod 8 = 0 \<and> bossTimer e + 1 < 80
      then bossSpread (e\<lparr>e_time := e_time e + 0.05, bossTimer := bossTimer e + 1\<rparr>)
      else [])"
  by (simp add: moveEnemy_def moveBoss_def Let_def consts_defs goRem_8 split: prod.splits)

lemma bossSpread_length: "length (bossSpread e) = 5"
  by (simp add: bossSpread_def)

lemma fireEnemy_boss_fields:
  "fireEnemy px py e r = Inr (e', bs, ps, r') \<Longrightarrow>
     bossState e' = bossState e \<and> bossTimer e' = bossTimer e \<and> e_y e' = e_y e
     \<and> e_x e' = e_x e \<and> moveDirection e' = moveDirection e"
  by (auto simp: fireEnemy_def Let_def split: if_splits prod.splits sum.splits)

lemma bossRun_add: "m + n = k \<Longrightarrow> bossRun k e = bossRun m (bossRun n e)"
proof (induction m arbitrary: k)
  case 0
  then show ?case by simp
next
  case (Suc m)
  then obtain k' where k: "k = Suc k'" "m + n = k'" by (cases k) auto
  show ?case using Suc.IH[OF k(2)] k(1) by simp
qed

lemma bossRun_ascent:
  assumes "enemyType e = EnemyTypeBoss" "bossState e = 0" "speed e = 2"
    "e_y e + 2 * real k \<le> 80"
  shows "enemyType (bossRun k e) = EnemyTypeBoss \<and> bossState (bossRun k e) = 0
    \<and> speed (bossRun k e) = 2 \<and> bossTimer (bossRun k e) = bossTimer e + int k
    \<and> e_y (bossRun k e) = e_y e + 2 * real k"
  using assms(4)
proof (induction k)
  case 0
  show ?case using assms(1-3) by simp
next
  case (Suc k)
  then have ih: "enemyType (bossRun k e) = EnemyTypeBoss" "bossState (bossRun k e) = 0"
    "speed (bossRun k e) = 2" "bossTimer (bossRun k e) = bossTimer e + int k"
    "e_y (bossRun k e) = e_y e + 2 * real k"
    by simp_all
  have low: "e_y (bossRun k e) < 80" using Suc.prems ih(5) by simp
  show ?case
    using boss_ascent_step[OF ih(1,2) low] ih(3,4,5) by simp
qed

lemma bossRun_in_phase:
  assumes "enemyType e = EnemyTypeBoss" "bossState e \<in> {0, 1, 2, 3}"
    "bossState e = 0 \<longrightarrow> 80 \<le> e_y e"
    "bossTimer e + int k \<le> phaseLimit (bossState e)"
  shows "enemyType (bossRun k e) = EnemyTypeBoss \<and> bossState (bossRun k e) = bossState e
    \<and> bossTimer (bossRun k e) = bossTimer e + int k \<and> e_y (bossRun k e) = e_y e"
  using assms(4)
proof (induction k)
  case 0
  show ?case using assms(1) by simp
next
  case (Suc k)
  then have ih: "enemyType (bossRun k e) = EnemyTypeBoss"
    "bossState (bossRun k e) = bossState e"
    "bossTimer (bossRun k e) = bossTimer e + int k" "e_y (bossRun k e) = e_y e"
    by simp_all
  have st: "bossState (bossRun k e) \<in> {0, 1, 2, 3}"
    "bossState (bossRun k e) = 0 \<longrightarrow> 80 \<le> e_y (bossRun k e)"
    using assms(2,3) ih(2,4) by simp_all
  have le: "bossTimer (bossRun k e) + 1 \<le> phaseLimit (bossState (bossRun k e))"
    using Suc.prems ih(2,3) by simp
  show ?case
    using boss_step(1,2)[OF ih(1) st] boss_step(5)[OF ih(1) st le] ih by simp
qed

lemma bossRun_phase_end:
  assumes "enemyType e = EnemyTypeBoss" "bossState e \<in> {0, 1, 2, 3}"
    "bossState e = 0 \<longrightarrow> 80 \<le> e_y e"
    "bossTimer e + int k = phaseLimit (bossState e)"
  shows "enemyType (bossRun (Suc k) e) = EnemyTypeBoss
    \<and> bossState (bossRun (Suc k) e) = (bossState e + 1) mod 4
    \<and> bossTimer (bossRun (Suc k) e) = 0 \<and> e_y (bossRun (Suc k) e) = e_y e"
proof -
  have ih: "enemyType (bossRun k e) = EnemyTypeBoss"
    "bossState (bossRun k e) = bossState e"
    "bossTimer (bossRun k e) = bossTimer e + int k" "e_y (bossRun k e) = e_y e"
    using bossRun_in_phase[OF assms(1-3), of k] assms(4) by simp_all
  have st: "bossState (bossRun k e) \<in> {0, 1, 2, 3}"
    "bossState (bossRun k e) = 0 \<longrightarrow> 80 \<le> e_y (bossRun k e)"
    using assms(2,3) ih(2,4) by simp_all
  have gt: "bossTimer (bossRun k e) + 1 > phaseLimit (bossState (bossRun k e))"
    using assms(4) ih(2,3) by simp
  show ?thesis
    using boss_step(1,2)[OF ih(1) st] boss_step(4)[OF ih(1) st gt] ih by simp
qed

text \<open>The freshly spawned boss, phase by phase.\<close>

lemma freshBoss_fields:
  "enemyType freshBoss = EnemyTypeBoss" "bossState freshBoss = 0" "bossTimer freshBoss = 0"
  "speed freshBoss = 2" "e_y freshBoss = -20"
  by (simp_all add: freshBoss_def makeEnemy_def bossWave_def wave_def)

lemma freshBoss_50:
  "enemyType (bossRun 50 freshBoss) = EnemyTypeBoss" "bossState (bossRun 50 freshBoss) = 0"
  "bossTimer (bossRun 50 freshBoss) = 50" "e_y (bossRun 50 freshBoss) = 80"
  using bossRun_ascent[of freshBoss 50] by (simp_all add: freshBoss_fields)

lemma freshBoss_move:
  assumes "k \<le> 70"
  shows "enemyType (bossRun (50 + k) freshBoss) = EnemyTypeBoss"
    "bossState (bossRun (50 + k) freshBoss) = 0"
    "bossTimer (bossRun (50 + k) freshBoss) = 50 + int k"
    "e_y (bossRun (50 + k) freshBoss) = 80"
proof -
  have r: "bossRun (50 + k) freshBoss = bossRun k (bossRun 50 freshBoss)"
    by (rule bossRun_add) simp
  have "bossTimer (bossRun 50 freshBoss) + int k \<le> phaseLimit (bossState (bossRun 50 freshBoss))"
    using assms by (simp add: freshBoss_50 phaseLimit_def)
  from bossRun_in_phase[OF freshBoss_50(1) _ _ this]
  show "enemyType (bossRun (50 + k) freshBoss) = EnemyTypeBoss"
    "bossState (bossRun (50 + k) freshBoss) = 0"
    "bossTimer (bossRun (50 + k) freshBoss) = 50 + int k"
    "e_y (bossRun (50 + k) freshBoss) = 80"
    unfolding r by (simp_all add: freshBoss_50)
qed

lemma freshBoss_121:
  "enemyType (bossRun 121 freshBoss) = EnemyTypeBoss" "bossState (bossRun 121 freshBoss) = 1"
  "bossTimer (bossRun 121 freshBoss) = 0" "e_y (bossRun 121 freshBoss) = 80"
proof -
  have r: "bossRun 121 freshBoss = bossRun (Suc 70) (bossRun 50 freshBoss)"
    by (rule bossRun_add) simp
  have "bossTimer (bossRun 50 freshBoss) + int 70 = phaseLimit (bossState (bossRun 50 freshBoss))"
    by (simp add: freshBoss_50 phaseLimit_def)
  from bossRun_phase_end[OF freshBoss_50(1) _ _ this]
  show "enemyType (bossRun 121 freshBoss) = EnemyTypeBoss" "bossState (bossRun 121 freshBoss) = 1"
    "bossTimer (bossRun 121 freshBoss) = 0" "e_y (bossRun 121 freshBoss) = 80"
    unfolding r by (simp_all add: freshBoss_50)
qed

lemma freshBoss_telegraph:
  assumes "k \<le> 60"
  shows "enemyType (bossRun (121 + k) freshBoss) = EnemyTypeBoss"
    "bossState (bossRun (121 + k) freshBoss) = 1"
    "bossTimer (bossRun (121 + k) freshBoss) = int k"
proof -
  have r: "bossRun (121 + k) freshBoss = bossRun k (bossRun 121 freshBoss)"
    by (rule bossRun_add) simp
  have "bossTimer (bossRun 121 freshBoss) + int k \<le> phaseLimit (bossState (bossRun 121 freshBoss))"
    using assms by (simp add: freshBoss_121 phaseLimit_def)
  from bossRun_in_phase[OF freshBoss_121(1) _ _ this]
  show "enemyType (bossRun (121 + k) freshBoss) = EnemyTypeBoss"
    "bossState (bossRun (121 + k) freshBoss) = 1"
    "bossTimer (bossRun (121 + k) freshBoss) = int k"
    unfolding r by (simp_all add: freshBoss_121)
qed

lemma freshBoss_182:
  "enemyType (bossRun 182 freshBoss) = EnemyTypeBoss" "bossState (bossRun 182 freshBoss) = 2"
  "bossTimer (bossRun 182 freshBoss) = 0"
proof -
  have r: "bossRun 182 freshBoss = bossRun (Suc 60) (bossRun 121 freshBoss)"
    by (rule bossRun_add) simp
  have "bossTimer (bossRun 121 freshBoss) + int 60 = phaseLimit (bossState (bossRun 121 freshBoss))"
    by (simp add: freshBoss_121 phaseLimit_def)
  from bossRun_phase_end[OF freshBoss_121(1) _ _ this]
  show "enemyType (bossRun 182 freshBoss) = EnemyTypeBoss" "bossState (bossRun 182 freshBoss) = 2"
    "bossTimer (bossRun 182 freshBoss) = 0"
    unfolding r by (simp_all add: freshBoss_121)
qed

lemma freshBoss_attack:
  assumes "k \<le> 80"
  shows "enemyType (bossRun (182 + k) freshBoss) = EnemyTypeBoss"
    "bossState (bossRun (182 + k) freshBoss) = 2"
    "bossTimer (bossRun (182 + k) freshBoss) = int k"
proof -
  have r: "bossRun (182 + k) freshBoss = bossRun k (bossRun 182 freshBoss)"
    by (rule bossRun_add) simp
  have "bossTimer (bossRun 182 freshBoss) + int k \<le> phaseLimit (bossState (bossRun 182 freshBoss))"
    using assms by (simp add: freshBoss_182 phaseLimit_def)
  from bossRun_in_phase[OF freshBoss_182(1) _ _ this]
  show "enemyType (bossRun (182 + k) freshBoss) = EnemyTypeBoss"
    "bossState (bossRun (182 + k) freshBoss) = 2"
    "bossTimer (bossRun (182 + k) freshBoss) = int k"
    unfolding r by (simp_all add: freshBoss_182)
qed

lemma freshBoss_263:
  "enemyType (bossRun 263 freshBoss) = EnemyTypeBoss" "bossState (bossRun 263 freshBoss) = 3"
  "bossTimer (bossRun 263 freshBoss) = 0"
proof -
  have r: "bossRun 263 freshBoss = bossRun (Suc 80) (bossRun 182 freshBoss)"
    by (rule bossRun_add) simp
  have "bossTimer (bossRun 182 freshBoss) + int 80 = phaseLimit (bossState (bossRun 182 freshBoss))"
    by (simp add: freshBoss_182 phaseLimit_def)
  from bossRun_phase_end[OF freshBoss_182(1) _ _ this]
  show "enemyType (bossRun 263 freshBoss) = EnemyTypeBoss" "bossState (bossRun 263 freshBoss) = 3"
    "bossTimer (bossRun 263 freshBoss) = 0"
    unfolding r by (simp_all add: freshBoss_182)
qed

lemma freshBoss_rest:
  assumes "k \<le> 90"
  shows "enemyType (bossRun (263 + k) freshBoss) = EnemyTypeBoss"
    "bossState (bossRun (263 + k) freshBoss) = 3"
    "bossTimer (bossRun (263 + k) freshBoss) = int k"
proof -
  have r: "bossRun (263 + k) freshBoss = bossRun k (bossRun 263 freshBoss)"
    by (rule bossRun_add) simp
  have "bossTimer (bossRun 263 freshBoss) + int k \<le> phaseLimit (bossState (bossRun 263 freshBoss))"
    using assms by (simp add: freshBoss_263 phaseLimit_def)
  from bossRun_in_phase[OF freshBoss_263(1) _ _ this]
  show "enemyType (bossRun (263 + k) freshBoss) = EnemyTypeBoss"
    "bossState (bossRun (263 + k) freshBoss) = 3"
    "bossTimer (bossRun (263 + k) freshBoss) = int k"
    unfolding r by (simp_all add: freshBoss_263)
qed

lemma freshBoss_354:
  "enemyType (bossRun 354 freshBoss) = EnemyTypeBoss" "bossState (bossRun 354 freshBoss) = 0"
  "bossTimer (bossRun 354 freshBoss) = 0"
proof -
  have r: "bossRun 354 freshBoss = bossRun (Suc 90) (bossRun 263 freshBoss)"
    by (rule bossRun_add) simp
  have "bossTimer (bossRun 263 freshBoss) + int 90 = phaseLimit (bossState (bossRun 263 freshBoss))"
    by (simp add: freshBoss_263 phaseLimit_def)
  from bossRun_phase_end[OF freshBoss_263(1) _ _ this]
  show "enemyType (bossRun 354 freshBoss) = EnemyTypeBoss" "bossState (bossRun 354 freshBoss) = 0"
    "bossTimer (bossRun 354 freshBoss) = 0"
    unfolding r by (simp_all add: freshBoss_263)
qed

lemma freshBoss_ascent:
  assumes "k \<le> 50"
  shows "enemyType (bossRun k freshBoss) = EnemyTypeBoss" "bossState (bossRun k freshBoss) = 0"
    "bossTimer (bossRun k freshBoss) = int k"
  using bossRun_ascent[of freshBoss k] assms by (simp_all add: freshBoss_fields)

text \<open>
  The frames of the first cycle in which the fresh boss emits bullets: the nine frames of
  the attack in which the incremented timer is 8, 16, ..., 72.
\<close>

lemma freshBoss_state:
  assumes "n < 354"
  shows "enemyType (bossRun n freshBoss) = EnemyTypeBoss"
    "bossState (bossRun n freshBoss) = 2 \<longleftrightarrow> 182 \<le> n \<and> n \<le> 262"
    "182 \<le> n \<Longrightarrow> n \<le> 262 \<Longrightarrow> bossTimer (bossRun n freshBoss) = int n - 182"
proof -
  consider "n \<le> 50" | k where "n = 50 + k" "k \<le> 70" | k where "n = 121 + k" "k \<le> 60"
    | k where "n = 182 + k" "k \<le> 80" | k where "n = 263 + k" "k \<le> 90"
  proof -
    have "n \<le> 50 \<or> (n = 50 + (n - 50) \<and> n - 50 \<le> 70) \<or> (n = 121 + (n - 121) \<and> n - 121 \<le> 60)
          \<or> (n = 182 + (n - 182) \<and> n - 182 \<le> 80) \<or> (n = 263 + (n - 263) \<and> n - 263 \<le> 90)"
      using assms by presburger
    then show ?thesis using that by blast
  qed
  then have "enemyType (bossRun n freshBoss) = EnemyTypeBoss
    \<and> (bossState (bossRun n freshBoss) = 2 \<longleftrightarrow> 182 \<le> n \<and> n \<le> 262)
    \<and> (182 \<le> n \<longrightarrow> n \<le> 262 \<longrightarrow> bossTimer (bossRun n freshBoss) = int n - 182)"
  proof cases
    case 1
    then show ?thesis using freshBoss_ascent[of n] by simp
  next
    case 2
    then show ?thesis using freshBoss_move[of k] by simp
  next
    case 3
    then show ?thesis using freshBoss_telegraph[of k] by simp
  next
    case 4
    then show ?thesis using freshBoss_attack[of k] by simp
  next
    case 5
    then show ?thesis using freshBoss_rest[of k] by simp
  qed
  then show "enemyType (bossRun n freshBoss) = EnemyTypeBoss"
    "bossState (bossRun n freshBoss) = 2 \<longleftrightarrow> 182 \<le> n \<and> n \<le> 262"
    "182 \<le> n \<Longrightarrow> n \<le> 262 \<Longrightarrow> bossTimer (bossRun n freshBoss) = int n - 182"
    by simp_all
qed

lemma freshBoss_volleys:
  assumes "n < 354"
  shows "bossVolley n freshBoss \<noteq> [] \<longleftrightarrow>
           n \<in> {189, 197, 205, 213, 221, 229, 237, 245, 253}"
    "length (bossVolley n freshBoss) = (if bossVolley n freshBoss \<noteq> [] then 5 else 0)"
proof -
  have v: "bossVolley n freshBoss \<noteq> [] \<longleftrightarrow>
        182 \<le> n \<and> n \<le> 262 \<and> (int n - 181) mod 8 = 0 \<and> int n - 181 < 80"
  proof (cases "182 \<le> n \<and> n \<le> 262")
    case True
    then have "bossState (bossRun n freshBoss) = 2" "bossTimer (bossRun n freshBoss) = int n - 182"
      using freshBoss_state(2,3)[OF assms] by simp_all
    then show ?thesis
      using True freshBoss_state(1)[OF assms]
      by (simp add: bossVolley_def moveEnemy_emits bossSpread_def)
  next
    case False
    then have "bossState (bossRun n freshBoss) \<noteq> 2"
      using freshBoss_state(2)[OF assms] by simp
    then have "bossVolley n freshBoss = []" by (simp add: bossVolley_def moveEnemy_emits)
    then show ?thesis using False by blast
  qed
  have "(182 \<le> n \<and> n \<le> 262 \<and> (int n - 181) mod 8 = 0 \<and> int n - 181 < 80)
        \<longleftrightarrow> n \<in> {189, 197, 205, 213, 221, 229, 237, 245, 253}"
    by (simp, presburger)
  with v show "bossVolley n freshBoss \<noteq> [] \<longleftrightarrow>
           n \<in> {189, 197, 205, 213, 221, 229, 237, 245, 253}" by simp
  show "length (bossVolley n freshBoss) = (if bossVolley n freshBoss \<noteq> [] then 5 else 0)"
    by (simp add: bossVolley_def moveEnemy_emits bossSpread_length)
qed

section \<open>The claims\<close>

text \<open>
  C1. The restart from GameOver replaces the whole session by \<^verbatim>\<open>NewGame()\<close> and sets the
  state to Playing. Score, enemies, bullets, enemy bullets, particles and stage index are
  those of a new session (\<open>Update_restart_fields\<close>), and so is the high score, which
  \<^verbatim>\<open>NewGame\<close> sets to 0: a session that ended with a high score of 500 restarts with a high
  score of 0.
\<close>

theorem restart_drops_high_score:
  "gameState gameOver500 = GameStateGameOver \<and> highScore gameOver500 = 500
   \<and> map_sum id (\<lambda>(g', r'). (gameState g', highScore g', score g', currentStage g',
                                enemies g', bullets g', enemyBullets g', particles g'))
        (Update restartKey [stageOne] gameOver500 (\<lambda>_. 0))
      = Inr (GameStatePlaying, 0, 0, 0, [], [], [], [])"
proof -
  obtain g0 r' where n: "NewGame True [stageOne] (snd (updateStars (stars gameOver500) (\<lambda>_. 0))) = Inr (g0, r')"
    and u: "Update restartKey [stageOne] gameOver500 (\<lambda>_. 0) = Inr (g0\<lparr>gameState := GameStatePlaying\<rparr>, r')"
    using Update_restart[of gameOver500 restartKey "[stageOne]" "\<lambda>_. 0"]
    by (auto simp: gameOver500_def restartKey_def noKeys_def emptyPlaying_def)
  from NewGame_fresh[OF n] show ?thesis
    unfolding u by (simp add: gameOver500_def emptyPlaying_def)
qed

text \<open>
  C2. A freshly spawned boss is to go from Move to Telegraph after 120 ticks of Move, to
  Attack after 60 more, to Rest after 80 more and back to Move after 90 more, every
  transition setting the boss timer to zero; and its 5-way spread is to be emitted only in
  the Attack state, every 8 ticks.

  The boss case counts the tick before it tests (\<^verbatim>\<open>e.bossTimer++\<close>, then
  \<^verbatim>\<open>if e.bossTimer > 120\<close>), so every state lasts one tick more than the number it is
  tested against, although the comments give the durations as two seconds of movement,
  one second of telegraph, one and a half seconds of rest and ten volleys. On the fresh
  boss the state after 120 ticks is still Move with the timer at 120, and Telegraph is
  entered by tick 121, Attack by tick 182, Rest by tick 263 and Move again by tick 354: at
  ticks 120, 180, 260 and 350 the boss is one state behind the one the claim gives. In the
  attack the timer is never seen at 0, so the spread is emitted at the timer values
  8, ..., 72: nine volleys, the first in tick 190 and the last in tick 254. Every
  transition does set the timer to zero, and no bullet is emitted outside the Attack
  state.
\<close>

theorem boss_phase_schedule:
  "enemyType freshBoss = EnemyTypeBoss \<and> bossState freshBoss = 0 \<and> bossTimer freshBoss = 0
   \<and> (bossState (bossRun 120 freshBoss), bossTimer (bossRun 120 freshBoss)) = (0, 120)
   \<and> (bossState (bossRun 121 freshBoss), bossTimer (bossRun 121 freshBoss)) = (1, 0)
   \<and> (bossState (bossRun 180 freshBoss), bossTimer (bossRun 180 freshBoss)) = (1, 59)
   \<and> (bossState (bossRun 181 freshBoss), bossTimer (bossRun 181 freshBoss)) = (1, 60)
   \<and> (bossState (bossRun 182 freshBoss), bossTimer (bossRun 182 freshBoss)) = (2, 0)
   \<and> (bossState (bossRun 260 freshBoss), bossTimer (bossRun 260 freshBoss)) = (2, 78)
   \<and> (bossState (bossRun 262 freshBoss), bossTimer (bossRun 262 freshBoss)) = (2, 80)
   \<and> (bossState (bossRun 263 freshBoss), bossTimer (bossRun 263 freshBoss)) = (3, 0)
   \<and> (bossState (bossRun 350 freshBoss), bossTimer (bossRun 350 freshBoss)) = (3, 87)
   \<and> (bossState (bossRun 353 freshBoss), bossTimer (bossRun 353 freshBoss)) = (3, 90)
   \<and> (bossState (bossRun 354 freshBoss), bossTimer (bossRun 354 freshBoss)) = (0, 0)
   \<and> bossVolley 181 freshBoss = [] \<and> bossVolley 182 freshBoss = []
   \<and> length (bossVolley 189 freshBoss) = 5 \<and> bossVolley 190 freshBoss = []
   \<and> length (bossVolley 197 freshBoss) = 5 \<and> length (bossVolley 253 freshBoss) = 5
   \<and> bossVolley 261 freshBoss = [] \<and> bossVolley 262 freshBoss = []"
proof -
  have m: "(bossState (bossRun 120 freshBoss), bossTimer (bossRun 120 freshBoss)) = (0, 120)"
    using freshBoss_move(2,3)[of 70] by simp
  have t: "(bossState (bossRun 180 freshBoss), bossTimer (bossRun 180 freshBoss)) = (1, 59)"
    "(bossState (bossRun 181 freshBoss), bossTimer (bossRun 181 freshBoss)) = (1, 60)"
    using freshBoss_telegraph(2,3)[of 59] freshBoss_telegraph(2,3)[of 60] by simp_all
  have a: "(bossState (bossRun 260 freshBoss), bossTimer (bossRun 260 freshBoss)) = (2, 78)"
    "(bossState (bossRun 262 freshBoss), bossTimer (bossRun 262 freshBoss)) = (2, 80)"
    using freshBoss_attack(2,3)[of 78] freshBoss_attack(2,3)[of 80] by simp_all
  have r: "(bossState (bossRun 350 freshBoss), bossTimer (bossRun 350 freshBoss)) = (3, 87)"
    "(bossState (bossRun 353 freshBoss), bossTimer (bossRun 353 freshBoss)) = (3, 90)"
    using freshBoss_rest(2,3)[of 87] freshBoss_rest(2,3)[of 90] by simp_all
  have v: "bossVolley 181 freshBoss = []" "bossVolley 182 freshBoss = []"
    "length (bossVolley 189 freshBoss) = 5" "bossVolley 190 freshBoss = []"
    "length (bossVolley 197 freshBoss) = 5" "length (bossVolley 253 freshBoss) = 5"
    "bossVolley 261 freshBoss = []" "bossVolley 262 freshBoss = []"
    using freshBoss_volleys[of 181] freshBoss_volleys[of 182] freshBoss_volleys[of 189]
      freshBoss_volleys[of 190] freshBoss_volleys[of 197] freshBoss_volleys[of 253]
      freshBoss_volleys[of 261] freshBoss_volleys[of 262]
    by simp_all
  show ?thesis
    using m t a r v freshBoss_fields(1-3) freshBoss_121(2,3) freshBoss_182(2,3)
      freshBoss_263(2,3) freshBoss_354(2,3)
    by simp
qed



text \<open>
  C4. A player bullet that overlaps an enemy hits the first such enemy in list order: the
  bullet is not kept, and the enemy loses exactly one hit point. While the enemies of the
  session all have positive hit points, the new value is never negative; if it is 0 the
  score is awarded (1000 for the boss, 100 otherwise), an explosion of 20 particles is
  created at the enemy and the enemy is removed, within the same pass; otherwise the enemy
  stays with one hit point less. A bullet that overlaps no enemy changes no enemy.
  Positive hit points of all live enemies is an invariant: it holds for a new session (no
  enemy), for every spawned enemy, and \<^verbatim>\<open>Update\<close> preserves it in every state.
\<close>

theorem hit_points:
  "(findHit b (enemies g) 0 = Some i \<and> (\<forall>e \<in> set (enemies g). 0 < hp e) \<longrightarrow>
      (let e = enemies g ! i; g' = fst (bulletsLoop [b] acc g r)
       in i < length (enemies g) \<and> bulletHitsEnemy b e
          \<and> (\<forall>j < i. \<not> bulletHitsEnemy b (enemies g ! j))
          \<and> bullets g' = acc
          \<and> 0 \<le> hp e - 1
          \<and> (if hp e - 1 \<le> 0
              then enemies g' = take i (enemies g) @ drop (Suc i) (enemies g)
                   \<and> score g' = score g + (if enemyType e = EnemyTypeBoss then 1000 else 100)
                   \<and> (\<exists>new. particles g' = particles g @ new \<and> length new = 20
                          \<and> (\<forall>q \<in> set new. explosionParticleAt (e_x e + 10) (e_y e + 10) q))
              else enemies g' = (enemies g)[i := e\<lparr>hp := hp e - 1\<rparr>]
                   \<and> score g' = score g \<and> particles g' = particles g)
          \<and> (\<forall>e' \<in> set (enemies g'). 0 < hp e')))
   \<and> (findHit b (enemies g) 0 = None \<longrightarrow>
        enemies (fst (bulletsLoop [b] acc g r)) = enemies g
        \<and> score (fst (bulletsLoop [b] acc g r)) = score g
        \<and> bullets (fst (bulletsLoop [b] acc g r))
            = (if bulletInBounds (moveBullet b) then acc @ [moveBullet b] else acc))
   \<and> ((\<forall>e \<in> set (enemies g). 0 < hp e) \<longrightarrow>
        (\<forall>e \<in> set (enemies (fst (updateBullets g r))). 0 < hp e)
        \<and> (case Update inp stages g r of
              Inl f \<Rightarrow> True
            | Inr (g', r') \<Rightarrow> \<forall>e \<in> set (enemies g'). 0 < hp e))
   \<and> (case NewGame a stages r of Inl f \<Rightarrow> True | Inr (g0, r0) \<Rightarrow> enemies g0 = [])
   \<and> 0 < hp (makeEnemy w cd)"
proof -
  have hit: "let e = enemies g ! i; g' = fst (bulletsLoop [b] acc g r)
       in i < length (enemies g) \<and> bulletHitsEnemy b e
          \<and> (\<forall>j < i. \<not> bulletHitsEnemy b (enemies g ! j))
          \<and> bullets g' = acc
          \<and> 0 \<le> hp e - 1
          \<and> (if hp e - 1 \<le> 0
              then enemies g' = take i (enemies g) @ drop (Suc i) (enemies g)
                   \<and> score g' = score g + (if enemyType e = EnemyTypeBoss then 1000 else 100)
                   \<and> (\<exists>new. particles g' = particles g @ new \<and> length new = 20
                          \<and> (\<forall>q \<in> set new. explosionParticleAt (e_x e + 10) (e_y e + 10) q))
              else enemies g' = (enemies g)[i := e\<lparr>hp := hp e - 1\<rparr>]
                   \<and> score g' = score g \<and> particles g' = particles g)
          \<and> (\<forall>e' \<in> set (enemies g'). 0 < hp e')"
    if f: "findHit b (enemies g) 0 = Some i" and inv: "\<forall>e \<in> set (enemies g). 0 < hp e"
  proof -
    let ?e = "enemies g ! i"
    from findHit_Some[OF f] have i: "i < length (enemies g)" "bulletHitsEnemy b ?e"
      "\<forall>j < i. \<not> bulletHitsEnemy b (enemies g ! j)" by simp_all
    have pos: "0 < hp ?e" using inv i(1) by simp
    have res: "fst (bulletsLoop [b] acc g r) = (fst (applyHit i g r))\<lparr>bullets := acc\<rparr>"
      using bulletsLoop_single_hit[OF f] by simp
    have after: "\<forall>e' \<in> set (enemies (fst (bulletsLoop [b] acc g r))). 0 < hp e'"
    proof -
      obtain E S new r' where
        "applyHit i g r = (g\<lparr>enemies := E, score := S, particles := particles g @ new\<rparr>, r')"
        "(\<forall>e \<in> set (enemies g). 0 < hp e) \<longrightarrow> (\<forall>e \<in> set E. 0 < hp e)"
        using applyHit_shape[OF i(1), of r] by blast
      then show ?thesis using inv res by simp
    qed
    show ?thesis
    proof (cases "1 < hp ?e")
      case True
      then show ?thesis
        using i after res applyHit_survives[OF True, of r] by (simp add: Let_def)
    next
      case False
      then have le: "hp ?e \<le> 1" by simp
      from applyHit_kills[OF le i(1), of r] obtain new r' where
        k: "applyHit i g r =
           (g\<lparr>enemies := take i (enemies g) @ drop (Suc i) (enemies g),
              score := score g + (if enemyType ?e = EnemyTypeBoss then 1000 else 100),
              particles := particles g @ new\<rparr>, r')"
          "length new = 20"
          "\<forall>q \<in> set new. explosionParticleAt (e_x ?e + 10) (e_y ?e + 10) q"
        by blast
      have "\<exists>new. particles (fst (bulletsLoop [b] acc g r)) = particles g @ new \<and> length new = 20
                \<and> (\<forall>q \<in> set new. explosionParticleAt (e_x ?e + 10) (e_y ?e + 10) q)"
        using k res by auto
      then show ?thesis
        using i after res k(1) le pos by (simp add: Let_def)
    qed
  qed
  have miss: "enemies (fst (bulletsLoop [b] acc g r)) = enemies g
        \<and> score (fst (bulletsLoop [b] acc g r)) = score g
        \<and> bullets (fst (bulletsLoop [b] acc g r))
            = (if bulletInBounds (moveBullet b) then acc @ [moveBullet b] else acc)"
    if "findHit b (enemies g) 0 = None"
    using bulletsLoop_single_miss[OF that] by simp
  have up: "case Update inp stages g r of
              Inl f \<Rightarrow> True
            | Inr (g', r') \<Rightarrow> \<forall>e \<in> set (enemies g'). 0 < hp e"
    if "\<forall>e \<in> set (enemies g). 0 < hp e"
    using Update_invariants[of inp stages g r] that by (auto split: sum.splits)
  have ng: "case NewGame a stages r of Inl f \<Rightarrow> True | Inr (g0, r0) \<Rightarrow> enemies g0 = []"
    using NewGame_fresh[of a stages r] by (auto split: sum.splits)
  show ?thesis
    apply (intro conjI impI)
    subgoal using hit by blast
    subgoal using miss by blast
    subgoal using miss by blast
    subgoal using miss by blast
    subgoal using updateBullets_hp by blast
    subgoal using up by blast
    subgoal using ng .
    subgoal using makeEnemy_hp .
    done
qed

theorem hit_points_witness:
  "findHit hitBullet (enemies woundedGame) 0 = Some 0
   \<and> length (enemies woundedGame) = 1
   \<and> hp (enemies woundedGame ! 0) = 1
   \<and> enemies (fst (bulletsLoop [hitBullet] [] woundedGame (\<lambda>_. 0))) = []
   \<and> score (fst (bulletsLoop [hitBullet] [] woundedGame (\<lambda>_. 0))) = 100
   \<and> bullets (fst (bulletsLoop [hitBullet] [] woundedGame (\<lambda>_. 0))) = []"
proof -
  have f: "findHit hitBullet (enemies woundedGame) 0 = Some 0"
    by (simp add: woundedGame_def hitBullet_def emptyPlaying_def makeEnemy_def wave_def
        bulletHitsEnemy_def consts_defs)
  have inv: "\<forall>e \<in> set (enemies woundedGame). 0 < hp e"
    by (simp add: woundedGame_def emptyPlaying_def)
  have e: "enemies woundedGame ! 0 = (makeEnemy (wave 0 100 0) 0)\<lparr>e_y := 100, hp := 1\<rparr>"
    "score woundedGame = 0" "length (enemies woundedGame) = 1"
    by (simp_all add: woundedGame_def emptyPlaying_def)
  show ?thesis
    using hit_points[of hitBullet woundedGame 0 "[]" "\<lambda>_. 0" noKeys "[]" True "wave 0 100 0" 0]
      f inv
    by (simp add: e Let_def makeEnemy_def wave_def consts_defs del: bulletsLoop.simps)
qed

text \<open>
  C5. In the Playing state the game is to go to StageClear on the tick when the spawn cursor
  has exhausted the wave list and no enemy is left, with the stage-clear timer and the
  key-released flag reset; a stage without waves completes at once; and the tick goes to
  StageClear, never to the next stage's Playing.

  The test of lines 491 to 496 does set StageClear, but the frame goes on: the enemy
  bullets still fly, and one that reaches the player in that frame sets PlayerExplosion
  over the StageClear just written. The session \<open>lastBullet\<close> is in such a frame.
\<close>

theorem stage_clear_overridden:
  "gameState lastBullet = GameStatePlaying
   \<and> length (waves lastBullet) \<le> currentSpawn lastBullet
   \<and> enemies lastBullet = []
   \<and> map_sum id (gameState \<circ> fst) (Update noKeys [stageOne] lastBullet zeros)
       = Inr GameStatePlayerExplosion
   \<and> map_sum id (gameState \<circ> fst) (Update noKeys [stageOne] lastBullet zeros)
       \<noteq> Inr GameStateStageClear"
proof -
  have st: "gameState lastBullet = GameStatePlaying" "enemies lastBullet = []"
    "length (waves lastBullet) \<le> currentSpawn lastBullet"
    by (simp_all add: lastBullet_def emptyPlaying_def)
  have nodue: "\<not> (currentSpawn lastBullet < length (waves lastBullet)
      \<and> totalDelay (waves lastBullet) (currentSpawn lastBullet) \<le> waveTimer lastBullet)"
    using st(3) by simp
  have hit: "\<exists>eb \<in> set (enemyBullets lastBullet).
                enemyBulletHitsPlayer (movePlayer noKeys lastBullet) (moveEnemyBullet eb)"
    by (simp add: lastBullet_def emptyPlaying_def movePlayer_def noKeys_def Let_def
        enemyBulletHitsPlayer_def moveEnemyBullet_def)
  from Update_playing_no_enemies[OF st(1,2) nodue, of noKeys "[stageOne]" zeros] hit
  obtain g' r' where "Update noKeys [stageOne] lastBullet zeros = Inr (g', r')"
    "gameState g' = GameStatePlayerExplosion" by auto
  then show ?thesis using st by (simp add: consts_defs)
qed

text \<open>
  C5, as the code has it. When the test finds the cursor at the end of the wave list and no
  enemy, the timer is 0 and the flag is false after the frame, and the frame ends in
  StageClear, unless an enemy bullet overlaps the player in this frame, and then it ends in
  PlayerExplosion. This is stated for the second half of the Playing case (from the test
  on), and for \<open>Update\<close> on a session that begins the frame with no enemy and the cursor at
  the end; a stage without waves is the instance \<open>waves g = []\<close>. In neither case does the
  frame end in Playing, and no frame of the Playing case changes the current stage or the
  wave list.
\<close>

theorem stage_clear_transition:
  "(enemies g4 = [] \<and> length (waves g4) \<le> currentSpawn g4 \<longrightarrow>
      gameState (fst (playingResolve inp g4 r4))
        = (if \<exists>eb \<in> set (enemyBullets g4). enemyBulletHitsPlayer g4 (moveEnemyBullet eb)
           then GameStatePlayerExplosion else GameStateStageClear)
      \<and> stageClearTimer (fst (playingResolve inp g4 r4)) = 0
      \<and> \<not> stageClearKeyReleased (fst (playingResolve inp g4 r4))
      \<and> currentStage (fst (playingResolve inp g4 r4)) = currentStage g4
      \<and> waves (fst (playingResolve inp g4 r4)) = waves g4)
   \<and> (gameState g = GameStatePlaying \<and> enemies g = []
        \<and> (length (waves g) \<le> currentSpawn g \<or> waves g = []) \<longrightarrow>
        (\<exists>g' r'. Update inp stages g r = Inr (g', r')
           \<and> gameState g'
               = (if \<exists>eb \<in> set (enemyBullets g).
                       enemyBulletHitsPlayer (movePlayer inp g) (moveEnemyBullet eb)
                  then GameStatePlayerExplosion else GameStateStageClear)
           \<and> gameState g' \<noteq> GameStatePlaying
           \<and> stageClearTimer g' = 0 \<and> \<not> stageClearKeyReleased g'
           \<and> currentStage g' = currentStage g \<and> waves g' = waves g))
   \<and> (gameState g = GameStatePlaying \<longrightarrow>
        (case Update inp stages g r of
           Inl f \<Rightarrow> True
         | Inr (g', r') \<Rightarrow> currentStage g' = currentStage g \<and> waves g' = waves g))"
  (is "?check \<and> ?frame \<and> ?stage")
proof -
  have a: "gameState (fst (playingResolve inp g4 r4))
        = (if \<exists>eb \<in> set (enemyBullets g4). enemyBulletHitsPlayer g4 (moveEnemyBullet eb)
           then GameStatePlayerExplosion else GameStateStageClear)
      \<and> stageClearTimer (fst (playingResolve inp g4 r4)) = 0
      \<and> \<not> stageClearKeyReleased (fst (playingResolve inp g4 r4))
      \<and> currentStage (fst (playingResolve inp g4 r4)) = currentStage g4
      \<and> waves (fst (playingResolve inp g4 r4)) = waves g4"
    if "enemies g4 = []" "length (waves g4) \<le> currentSpawn g4"
    using playingResolve_no_enemies[OF that(1), of inp r4] that(2) by auto
  have b: "\<exists>g' r'. Update inp stages g r = Inr (g', r')
           \<and> gameState g'
               = (if \<exists>eb \<in> set (enemyBullets g).
                       enemyBulletHitsPlayer (movePlayer inp g) (moveEnemyBullet eb)
                  then GameStatePlayerExplosion else GameStateStageClear)
           \<and> gameState g' \<noteq> GameStatePlaying
           \<and> stageClearTimer g' = 0 \<and> \<not> stageClearKeyReleased g'
           \<and> currentStage g' = currentStage g \<and> waves g' = waves g"
    if h: "gameState g = GameStatePlaying" "enemies g = []" "length (waves g) \<le> currentSpawn g"
  proof -
    have nodue: "\<not> (currentSpawn g < length (waves g)
                   \<and> totalDelay (waves g) (currentSpawn g) \<le> waveTimer g)"
      using h(3) by simp
    from Update_playing_no_enemies[OF h(1,2) nodue, of inp stages r] obtain g' r' where
      u: "Update inp stages g r = Inr (g', r')"
      and p: "gameState g' =
         (if \<exists>eb \<in> set (enemyBullets g).
                enemyBulletHitsPlayer (movePlayer inp g) (moveEnemyBullet eb)
          then GameStatePlayerExplosion
          else if length (waves g) \<le> currentSpawn g then GameStateStageClear
          else GameStatePlaying)"
        "stageClearTimer g' = (if length (waves g) \<le> currentSpawn g then 0
                              else stageClearTimer g)"
        "stageClearKeyReleased g' = (if length (waves g) \<le> currentSpawn g then False
                                    else stageClearKeyReleased g)"
        "currentStage g' = currentStage g" "waves g' = waves g"
      by (elim exE conjE) (rule that; assumption)
    have "gameState g' \<noteq> GameStatePlaying" using p(1) h(3) by (simp add: consts_defs)
    then show ?thesis using u p h(3) by auto
  qed
  have c: "case Update inp stages g r of
           Inl f \<Rightarrow> True
         | Inr (g', r') \<Rightarrow> currentStage g' = currentStage g \<and> waves g' = waves g"
    if "gameState g = GameStatePlaying"
    using Update_playing_cursor[OF that, of inp stages r] by (auto split: sum.splits)
  have len: "length (waves g) \<le> currentSpawn g"
    if "length (waves g) \<le> currentSpawn g \<or> waves g = []"
    using that by auto
  have A: ?check using a by blast
  have B: ?frame using b len by blast
  have C: ?stage using c by blast
  show ?thesis by (rule conjI[OF A conjI[OF B C]])
qed

theorem stage_clear_transition_witness:
  "gameState emptyStage = GameStatePlaying \<and> enemies emptyStage = []
   \<and> waves emptyStage = [] \<and> enemyBullets emptyStage = []
   \<and> map_sum id (gameState \<circ> fst) (Update noKeys [stageOne] emptyStage zeros)
       = Inr GameStateStageClear
   \<and> map_sum id (stageClearTimer \<circ> fst) (Update noKeys [stageOne] emptyStage zeros) = Inr 0
   \<and> map_sum id (stageClearKeyReleased \<circ> fst) (Update noKeys [stageOne] emptyStage zeros)
       = Inr False
   \<and> map_sum id (currentStage \<circ> fst) (Update noKeys [stageOne] emptyStage zeros) = Inr 0
   \<and> gameState (fst (playingResolve noKeys emptyStage zeros)) = GameStateStageClear"
proof -
  have st: "gameState emptyStage = GameStatePlaying" "enemies emptyStage = []"
    "waves emptyStage = []" "enemyBullets emptyStage = []" "currentStage emptyStage = 0"
    "currentSpawn emptyStage = 0"
    by (simp_all add: emptyStage_def emptyPlaying_def)
  from stage_clear_transition[where ?g4.0 = emptyStage and inp = noKeys and ?r4.0 = zeros
      and g = emptyStage and stages = "[stageOne]" and r = zeros] st
  have r: "gameState (fst (playingResolve noKeys emptyStage zeros)) = GameStateStageClear"
    and "\<exists>g' r'. Update noKeys [stageOne] emptyStage zeros = Inr (g', r')
           \<and> gameState g' = GameStateStageClear
           \<and> stageClearTimer g' = 0 \<and> \<not> stageClearKeyReleased g'
           \<and> currentStage g' = 0"
    by auto
  then obtain g' r' where "Update noKeys [stageOne] emptyStage zeros = Inr (g', r')"
    "gameState g' = GameStateStageClear" "stageClearTimer g' = 0"
    "\<not> stageClearKeyReleased g'" "currentStage g' = 0"
    by blast
  then show ?thesis using st r by simp
qed

text \<open>
  C6. Whenever an enemy bullet overlaps the player during Playing, the game is to go to
  PlayerExplosion, spawn a green explosion, and record the score as the high score when it
  beats the stored one.

  The enemy-bullet loop (lines 573 to 590) spawns the explosion and sets PlayerExplosion,
  but it has no \<^verbatim>\<open>if g.score > g.highScore\<close>; the collision of the player with an enemy's
  body, right below it (lines 592 to 611), has it, as has every way into GameOver. At
  \<open>bulletHit\<close>, a session of 100 points with a high score of 0, the frame ends in
  PlayerExplosion with twenty new particles and the high score still 0; at \<open>bodyHit\<close>,
  the same session with the enemy in the place of its bullet, the high score becomes 100.
\<close>

theorem bullet_hit_skips_high_score:
  "gameState bulletHit = GameStatePlaying
   \<and> score bulletHit = 100 \<and> highScore bulletHit = 0 \<and> particles bulletHit = []
   \<and> enemyBulletHitsPlayer bulletHit (moveEnemyBullet (hd (enemyBullets bulletHit)))
   \<and> map_sum id ((\<lambda>g'. (gameState g', score g', highScore g', length (particles g'))) \<circ> fst)
        (Update noKeys [stageOne] bulletHit zeros)
       = Inr (GameStatePlayerExplosion, 100, 0, 20)
   \<and> highScore (fst (updateEnemyBullets bulletHit zeros)) = 0
   \<and> gameState (fst (playerEnemyCollision bodyHit zeros)) = GameStatePlayerExplosion
   \<and> highScore (fst (playerEnemyCollision bodyHit zeros)) = 100"
proof -
  have st: "gameState bulletHit = GameStatePlaying" "enemies bulletHit = []"
    "score bulletHit = 100" "highScore bulletHit = 0" "particles bulletHit = []"
    and hd: "enemyBullets bulletHit = [\<lparr>eb_x = 325, eb_y = 400, eb_vx = 0, eb_vy = 4\<rparr>]"
    and pl: "playerX bulletHit = 320" "playerY bulletHit = 408"
    by (simp_all add: bulletHit_def lastBullet_def emptyPlaying_def)
  have nodue: "\<not> (currentSpawn bulletHit < length (waves bulletHit)
      \<and> totalDelay (waves bulletHit) (currentSpawn bulletHit) \<le> waveTimer bulletHit)"
    by (simp add: bulletHit_def lastBullet_def emptyPlaying_def totalDelay_def wave_def
        shooterWave_def)
  have hit0: "enemyBulletHitsPlayer bulletHit (moveEnemyBullet (hd (enemyBullets bulletHit)))"
    by (simp add: hd pl enemyBulletHitsPlayer_def moveEnemyBullet_def)
  have hit: "\<exists>eb \<in> set (enemyBullets bulletHit).
                enemyBulletHitsPlayer (movePlayer noKeys bulletHit) (moveEnemyBullet eb)"
    by (simp add: hd pl movePlayer_def noKeys_def Let_def
        enemyBulletHitsPlayer_def moveEnemyBullet_def)
  from Update_playing_no_enemies[OF st(1,2) nodue, of noKeys "[stageOne]" zeros] hit
  obtain g' r' new where "Update noKeys [stageOne] bulletHit zeros = Inr (g', r')"
    "gameState g' = GameStatePlayerExplosion" "highScore g' = highScore bulletHit"
    "score g' = score bulletHit" "particles g' = updateParticles (particles bulletHit) @ new"
    "length new = 20"
    by auto
  then have u: "map_sum id
        ((\<lambda>g'. (gameState g', score g', highScore g', length (particles g'))) \<circ> fst)
        (Update noKeys [stageOne] bulletHit zeros)
       = Inr (GameStatePlayerExplosion, 100, 0, 20)"
    using st by simp
  obtain EB new r' where
    "updateEnemyBullets bulletHit zeros =
       (if \<exists>eb \<in> set (enemyBullets bulletHit).
             enemyBulletHitsPlayer bulletHit (moveEnemyBullet eb)
        then (bulletHit\<lparr>enemyBullets := EB, particles := particles bulletHit @ new,
              gameState := GameStatePlayerExplosion, playerExplosionTimer := 0\<rparr>, r')
        else (bulletHit\<lparr>enemyBullets := EB\<rparr>, zeros))"
    unfolding updateEnemyBullets_def using enemyBulletsLoop_shape by blast
  then have eb: "highScore (fst (updateEnemyBullets bulletHit zeros)) = 0"
    using st(4) by (simp split: if_splits)
  have bh: "\<exists>e \<in> set (enemies bodyHit). playerHitsEnemy bodyHit e"
    by (simp add: bodyHit_def bulletHit_def lastBullet_def emptyPlaying_def playerHitsEnemy_def
        makeEnemy_def shooterWave_def wave_def consts_defs)
  obtain new2 r2 where
    "playerEnemyCollision bodyHit zeros =
       (if \<exists>e \<in> set (enemies bodyHit). playerHitsEnemy bodyHit e
        then (bodyHit\<lparr>highScore := (if score bodyHit > highScore bodyHit then score bodyHit
                                     else highScore bodyHit),
              particles := particles bodyHit @ new2,
              gameState := GameStatePlayerExplosion, playerExplosionTimer := 0\<rparr>, r2)
        else (bodyHit, zeros))"
    unfolding playerEnemyCollision_def using collisionLoop_shape by blast
  then have body: "gameState (fst (playerEnemyCollision bodyHit zeros)) = GameStatePlayerExplosion"
    "highScore (fst (playerEnemyCollision bodyHit zeros)) = 100"
    using bh by (simp_all add: bodyHit_def bulletHit_def lastBullet_def emptyPlaying_def)
  show ?thesis using st hit0 u eb body by simp
qed

text \<open>
  C7. The aimed shot divides the offset to the player by its length without testing the
  length. When the enemy fires from the player's own position the length is 0
  (\<open>aimedVelocity_fault\<close>: this is the only case), the quotient is not a number, and the
  frame stores it in a bullet and a particle: \<^verbatim>\<open>Update\<close> has no guard on this path. (Away
  from that position the velocity is defined and has length 4, \<open>aimedVelocity_defined\<close>.)
\<close>

theorem aimed_shot_at_zero_distance:
  "aimedVelocity (playerX aimedAt) (playerY aimedAt) 320 256 = Inl DivisionByZero
   \<and> fst (moveEnemy aimer) = aimer\<lparr>e_x := 320, e_time := 0.05\<rparr>
   \<and> fireEnemy (playerX aimedAt) (playerY aimedAt) (fst (moveEnemy aimer)) r = Inl DivisionByZero
   \<and> Update noKeys stages aimedAt r = Inl DivisionByZero"
proof -
  have a: "aimedVelocity (playerX aimedAt) (playerY aimedAt) 320 256 = Inl DivisionByZero"
    by (simp add: aimedVelocity_fault aimedAt_def emptyPlaying_def)
  have m: "moveEnemy aimer = (aimer\<lparr>e_x := 320, e_time := 0.05\<rparr>, [], [])"
    by (simp add: moveEnemy_def moveSpecial_def aimer_def makeEnemy_def Let_def consts_defs)
  have f: "fireEnemy (playerX aimedAt) (playerY aimedAt) (aimer\<lparr>e_x := 320, e_time := 0.05\<rparr>) r'
             = Inl DivisionByZero" for r'
    using a by (simp add: fireEnemy_def aimer_def makeEnemy_def Let_def)
  have p: "movePlayer noKeys aimedAt = aimedAt"
    by (simp add: movePlayer_def noKeys_def Let_def)
  have s: "spawnEnemies aimedAt r' = (aimedAt\<lparr>waveTimer := 61\<rparr>, r')" for r'
    by (simp add: spawnEnemies_eq aimedAt_def emptyPlaying_def)
  have e: "updateEnemies (aimedAt\<lparr>waveTimer := 61\<rparr>) r' = Inl DivisionByZero" for r'
    using m f[of r'] by (simp add: updateEnemies_def aimedAt_def emptyPlaying_def)
  have st: "gameState aimedAt = GameStatePlaying" "stars aimedAt = []" "particles aimedAt = []"
    by (simp_all add: aimedAt_def emptyPlaying_def)
  have same: "aimedAt\<lparr>stars := [], particles := []\<rparr> = aimedAt"
    by (simp add: aimedAt_def emptyPlaying_def)
  have u: "Update noKeys stages aimedAt r = Inl DivisionByZero"
    using Update_playing_eq[OF st(1), of noKeys stages r]
    by (simp add: st same updatePlaying_def playingAdvance_def p s e)
  show ?thesis using a m f u by simp
qed

text \<open>
  C8. In every tick each particle loses \<open>1 / lifetime\<close> of alpha and one unit of lifetime;
  for a particle that survives both strictly decrease. A particle that is not a Line
  (\<open>ptype \<noteq> 1\<close>) also moves by its velocity and gains 0.1 of downward velocity; a Line
  particle keeps its position and velocity. The particles kept are exactly those whose new
  lifetime and new alpha are both positive, in order, so a particle whose lifetime or
  alpha became non-positive is not in the collection after the tick. This holds for the
  whole frame too: whatever the state of the game, every particle of the session after
  \<^verbatim>\<open>Update\<close> has a positive lifetime and a positive alpha (the particles created during
  the frame start at alpha 1 with a lifetime of at least 5).
\<close>

theorem particle_decay:
  "updateParticles ps = filter particleAlive (map stepParticle ps)
   \<and> lifetime (stepParticle p) = lifetime p - 1
   \<and> alpha (stepParticle p) = alpha p - 1 / real_of_int (lifetime p)
   \<and> (particleAlive (stepParticle p) \<longrightarrow>
        lifetime (stepParticle p) < lifetime p \<and> alpha (stepParticle p) < alpha p)
   \<and> (if ptype p \<noteq> 1
       then p_x (stepParticle p) = p_x p + p_vx p \<and> p_y (stepParticle p) = p_y p + p_vy p
          \<and> p_vx (stepParticle p) = p_vx p \<and> p_vy (stepParticle p) = p_vy p + 0.1
       else p_x (stepParticle p) = p_x p \<and> p_y (stepParticle p) = p_y p
          \<and> p_vx (stepParticle p) = p_vx p \<and> p_vy (stepParticle p) = p_vy p)
   \<and> (\<forall>q \<in> set (updateParticles ps). lifetime q > 0 \<and> alpha q > 0)
   \<and> (p \<in> set ps \<and> \<not> (lifetime (stepParticle p) > 0 \<and> alpha (stepParticle p) > 0) \<longrightarrow>
        length (filter (\<lambda>q. q = stepParticle p) (updateParticles ps)) = 0)
   \<and> (case Update inp stages g r of
         Inl f \<Rightarrow> True
       | Inr (g', r') \<Rightarrow> \<forall>q \<in> set (particles g'). lifetime q > 0 \<and> alpha q > 0)"
proof -
  have u: "case Update inp stages g r of
         Inl f \<Rightarrow> True
       | Inr (g', r') \<Rightarrow> \<forall>q \<in> set (particles g'). lifetime q > 0 \<and> alpha q > 0"
    using Update_invariants[of inp stages g r]
    by (auto simp: particleAlive_def split: sum.splits)
  have a: "\<forall>q \<in> set (updateParticles ps). lifetime q > 0 \<and> alpha q > 0"
    by (simp add: updateParticles_filter particleAlive_def)
  have b: "if ptype p \<noteq> 1
       then p_x (stepParticle p) = p_x p + p_vx p \<and> p_y (stepParticle p) = p_y p + p_vy p
          \<and> p_vx (stepParticle p) = p_vx p \<and> p_vy (stepParticle p) = p_vy p + 0.1
       else p_x (stepParticle p) = p_x p \<and> p_y (stepParticle p) = p_y p
          \<and> p_vx (stepParticle p) = p_vx p \<and> p_vy (stepParticle p) = p_vy p"
    by (simp add: stepParticle_def Let_def)
  have d: "\<not> (lifetime (stepParticle p) > 0 \<and> alpha (stepParticle p) > 0) \<longrightarrow>
        length (filter (\<lambda>q. q = stepParticle p) (updateParticles ps)) = 0"
    using a by (auto simp: filter_empty_conv)
  show ?thesis
    using a b d u stepParticle_alive_decreases[of p]
    by (simp add: updateParticles_filter stepParticle_lifetime stepParticle_alpha)
qed

theorem particle_decay_witness:
  "updateParticles
     [\<lparr>p_x = 0, p_y = 0, p_vx = 1, p_vy = 2, p_size = 4, alpha = 1, lifetime = 2, ptype = 0\<rparr>,
      \<lparr>p_x = 5, p_y = 5, p_vx = 0, p_vy = 4, p_size = 80, alpha = 1, lifetime = 1, ptype = 1\<rparr>]
   = [\<lparr>p_x = 1, p_y = 2, p_vx = 1, p_vy = 2.1, p_size = 4, alpha = 1 / 2,
        lifetime = 1, ptype = 0\<rparr>]
   \<and> map_sum id (particles \<circ> fst)
        (Update noKeys []
           (emptyPlaying\<lparr>gameState := GameStateTitle,
              particles := [\<lparr>p_x = 0, p_y = 0, p_vx = 1, p_vy = 2, p_size = 4, alpha = 1,
                               lifetime = 2, ptype = 0\<rparr>,
                            \<lparr>p_x = 5, p_y = 5, p_vx = 0, p_vy = 4, p_size = 80, alpha = 1,
                               lifetime = 1, ptype = 1\<rparr>]\<rparr>) (\<lambda>_. 0))
      = Inr [\<lparr>p_x = 1, p_y = 2, p_vx = 1, p_vy = 2.1, p_size = 4, alpha = 1 / 2,
               lifetime = 1, ptype = 0\<rparr>]"
  using particle_decay
    [of "[\<lparr>p_x = 0, p_y = 0, p_vx = 1, p_vy = 2, p_size = 4, alpha = 1, lifetime = 2, ptype = 0\<rparr>,
          \<lparr>p_x = 5, p_y = 5, p_vx = 0, p_vy = 4, p_size = 80, alpha = 1, lifetime = 1, ptype = 1\<rparr>]"
        "\<lparr>p_x = 0, p_y = 0, p_vx = 1, p_vy = 2, p_size = 4, alpha = 1, lifetime = 2, ptype = 0\<rparr>"
        noKeys "[]"
        "emptyPlaying\<lparr>gameState := GameStateTitle,
              particles := [\<lparr>p_x = 0, p_y = 0, p_vx = 1, p_vy = 2, p_size = 4, alpha = 1,
                               lifetime = 2, ptype = 0\<rparr>,
                            \<lparr>p_x = 5, p_y = 5, p_vx = 0, p_vy = 4, p_size = 80, alpha = 1,
                               lifetime = 1, ptype = 1\<rparr>]\<rparr>" "\<lambda>_. 0"]
  by (simp add: stepParticle_def particleAlive_def Let_def Update_def emptyPlaying_def
      noKeys_def consts_defs)

text \<open>
  C9. For a Special enemy in phase 1, the GameOver path adds the speed to \<open>x\<close> whatever
  \<open>turnDirection\<close> is (so it moves in the positive direction for a positive speed), while
  the Playing path adds \<open>speed * turnDirection\<close>. With \<open>turnDirection = -1\<close> the two paths
  give different positions; the speed of a spawned enemy is never zero
  (\<open>makeEnemy_speed\<close>), which is the one case where they would agree.
\<close>

theorem special_phase1_paths:
  assumes "enemyType e = EnemyTypeSpecial" and "phase e = 1"
  shows "e_x (moveEnemyGameOver e) = e_x e + speed e
       \<and> e_y (moveEnemyGameOver e) = e_y e
       \<and> e_x (fst (moveEnemy e)) = e_x e + speed e * real_of_int (turnDirection e)
       \<and> e_y (fst (moveEnemy e)) = e_y e
       \<and> (0 < speed e \<longrightarrow> e_x e < e_x (moveEnemyGameOver e))
       \<and> (turnDirection e = -1 \<and> speed e \<noteq> 0 \<longrightarrow>
            e_x (moveEnemyGameOver e) \<noteq> e_x (fst (moveEnemy e))
            \<and> moveEnemyGameOver e \<noteq> fst (moveEnemy e))"
proof -
  have go: "e_x (moveEnemyGameOver e) = e_x e + speed e" "e_y (moveEnemyGameOver e) = e_y e"
    using assms
    by (simp_all add: moveEnemyGameOver_def moveSpecialGameOver_def Let_def consts_defs)
  have pl: "e_x (fst (moveEnemy e)) = e_x e + speed e * real_of_int (turnDirection e)"
    "e_y (fst (moveEnemy e)) = e_y e"
    using assms by (simp_all add: moveEnemy_def moveSpecial_def Let_def consts_defs)
  have ne: "e_x (moveEnemyGameOver e) \<noteq> e_x (fst (moveEnemy e))"
    if "turnDirection e = -1" "speed e \<noteq> 0"
    using that go(1) pl(1) by simp
  then have "moveEnemyGameOver e \<noteq> fst (moveEnemy e)"
    if "turnDirection e = -1" "speed e \<noteq> 0"
    using that by metis
  then show ?thesis using go pl ne by simp
qed

theorem special_phase1_paths_witness:
  "enemyType leftTurner = EnemyTypeSpecial \<and> phase leftTurner = 1
   \<and> turnDirection leftTurner = -1 \<and> speed leftTurner = 2
   \<and> e_x (moveEnemyGameOver leftTurner) = 442
   \<and> e_x (fst (moveEnemy leftTurner)) = 438"
  using special_phase1_paths[of leftTurner]
  by (simp add: leftTurner_def makeEnemy_def)

text \<open>
  C10. In the fire block of the Playing case, with the fire key held and the cooldown at 0,
  exactly three bullets are appended: at x-offsets 0, 8 and 16 from the player, with
  velocity \<open>12 * (sin a, - cos a)\<close> for \<open>a\<close> = -3, 0 and +3 degrees (speed 12). The cooldown is
  set to 5 and decremented once in the same tick, so the four following ticks create no
  bullet whatever the keys are, and the cooldown is back at 0 only after them: two volleys
  are at least 5 ticks apart. No bullet is created while the cooldown is not 0.
\<close>

theorem player_volley:
  "(KeySpace inp \<and> shootCooldown g = 0 \<longrightarrow>
      bullets (playerFire inp g) =
        bullets g @ [\<lparr>b_x = playerX g, b_y = playerY g,
                       b_vx = sin (pi / 180 * (-3)) * 12, b_vy = - cos (pi / 180 * (-3)) * 12\<rparr>,
                     \<lparr>b_x = playerX g + 8, b_y = playerY g,
                       b_vx = sin (pi / 180 * 0) * 12, b_vy = - cos (pi / 180 * 0) * 12\<rparr>,
                     \<lparr>b_x = playerX g + 16, b_y = playerY g,
                       b_vx = sin (pi / 180 * 3) * 12, b_vy = - cos (pi / 180 * 3) * 12\<rparr>]
      \<and> (\<forall>b \<in> set (volley g). (b_vx b)\<^sup>2 + (b_vy b)\<^sup>2 = 12\<^sup>2)
      \<and> length (bullets (playerFire inp g)) = length (bullets g) + 3
      \<and> shootCooldown (playerFire inp g) = 5 - 1
      \<and> (let g1 = playerFire i1 (playerFire inp g);
              g2 = playerFire i2 g1; g3 = playerFire i3 g2; g4 = playerFire i4 g3
          in bullets g1 = bullets (playerFire inp g) \<and> bullets g2 = bullets g1
             \<and> bullets g3 = bullets g2 \<and> bullets g4 = bullets g3 \<and> shootCooldown g4 = 0))
   \<and> (shootCooldown g \<noteq> 0 \<or> \<not> KeySpace inp \<longrightarrow> bullets (playerFire inp g) = bullets g)
   \<and> (0 < shootCooldown g \<longrightarrow>
        bullets (playerFire inp g) = bullets g
        \<and> shootCooldown (playerFire inp g) = shootCooldown g - 1)"
proof -
  have fire: "bullets (playerFire inp g) = bullets g @ volley g"
      "shootCooldown (playerFire inp g) = 4"
    if "KeySpace inp" "shootCooldown g = 0"
    using playerFire_fires[OF that] by simp_all
  have spd: "\<forall>b \<in> set (volley g). (b_vx b)\<^sup>2 + (b_vy b)\<^sup>2 = 12\<^sup>2"
    using playerBullet_speed by (simp add: volley_eq)
  have cool: "bullets (playerFire i h) = bullets h \<and> shootCooldown (playerFire i h) = shootCooldown h - 1"
    if "0 < shootCooldown h" for i h
    using that by (simp add: playerFire_def Let_def)
  have idle: "bullets (playerFire inp g) = bullets g" if "shootCooldown g \<noteq> 0 \<or> \<not> KeySpace inp"
    using that by (auto simp: playerFire_def Let_def)
  have chain: "let g1 = playerFire i1 (playerFire inp g);
              g2 = playerFire i2 g1; g3 = playerFire i3 g2; g4 = playerFire i4 g3
          in bullets g1 = bullets (playerFire inp g) \<and> bullets g2 = bullets g1
             \<and> bullets g3 = bullets g2 \<and> bullets g4 = bullets g3 \<and> shootCooldown g4 = 0"
    if k: "KeySpace inp" "shootCooldown g = 0"
  proof -
    let ?g0 = "playerFire inp g"
    have c0: "shootCooldown ?g0 = 4" using fire(2)[OF k] .
    have s1: "bullets (playerFire i1 ?g0) = bullets ?g0" "shootCooldown (playerFire i1 ?g0) = 3"
      using cool[of ?g0 i1] c0 by simp_all
    have s2: "bullets (playerFire i2 (playerFire i1 ?g0)) = bullets (playerFire i1 ?g0)"
      "shootCooldown (playerFire i2 (playerFire i1 ?g0)) = 2"
      using cool[of "playerFire i1 ?g0" i2] s1 by simp_all
    have s3: "bullets (playerFire i3 (playerFire i2 (playerFire i1 ?g0)))
                = bullets (playerFire i2 (playerFire i1 ?g0))"
      "shootCooldown (playerFire i3 (playerFire i2 (playerFire i1 ?g0))) = 1"
      using cool[of "playerFire i2 (playerFire i1 ?g0)" i3] s2 by simp_all
    have s4: "bullets (playerFire i4 (playerFire i3 (playerFire i2 (playerFire i1 ?g0))))
                = bullets (playerFire i3 (playerFire i2 (playerFire i1 ?g0)))"
      "shootCooldown (playerFire i4 (playerFire i3 (playerFire i2 (playerFire i1 ?g0)))) = 0"
      using cool[of "playerFire i3 (playerFire i2 (playerFire i1 ?g0))" i4] s3 by simp_all
    show ?thesis using s1 s2 s3 s4 by (simp add: Let_def)
  qed
  have vol: "volley g = [\<lparr>b_x = playerX g, b_y = playerY g,
                       b_vx = sin (pi / 180 * (-3)) * 12, b_vy = - cos (pi / 180 * (-3)) * 12\<rparr>,
                     \<lparr>b_x = playerX g + 8, b_y = playerY g,
                       b_vx = sin (pi / 180 * 0) * 12, b_vy = - cos (pi / 180 * 0) * 12\<rparr>,
                     \<lparr>b_x = playerX g + 16, b_y = playerY g,
                       b_vx = sin (pi / 180 * 3) * 12, b_vy = - cos (pi / 180 * 3) * 12\<rparr>]"
    by (simp add: volley_eq playerBullet_def Let_def)
  show ?thesis
    apply (intro conjI impI)
    subgoal using fire(1) vol by simp
    subgoal using spd .
    subgoal using fire(1) by (simp add: volley_eq)
    subgoal using fire(2) by simp
    subgoal using chain by simp
    subgoal using idle by simp
    subgoal using cool by simp
    subgoal using cool by simp
    done
qed

theorem player_volley_witness:
  "KeySpace fireKey \<and> shootCooldown emptyPlaying = 0
   \<and> length (bullets (playerFire fireKey emptyPlaying)) = 3
   \<and> shootCooldown (playerFire fireKey emptyPlaying) = 4
   \<and> bullets (playerFire fireKey (playerFire fireKey emptyPlaying))
        = bullets (playerFire fireKey emptyPlaying)"
  using player_volley[of fireKey emptyPlaying fireKey fireKey fireKey fireKey]
  by (simp add: fireKey_def noKeys_def emptyPlaying_def Let_def)

end
